theory Spec2Isabelle
  imports Main
begin

section \<open>Python values, exceptions and expressions\<close>

text \<open>
  The handlers of \<^verbatim>\<open>src/mcp_hetzner/server.py\<close> return plain Python dictionaries.
  A dictionary is an association list in insertion order, as a dict display builds it.
\<close>

datatype pyval =
    PNone
  | PBool bool
  | PInt int
  | PStr string
  | PList "pyval list"
  | PDict "(string \<times> pyval) list"

text \<open>
  Every exception of the model is an instance of Python's \<^verbatim>\<open>Exception\<close>: the class
  and the text that \<^verbatim>\<open>str(e)\<close> gives. Interpreter signals that derive from
  \<^verbatim>\<open>BaseException\<close> only (KeyboardInterrupt, SystemExit) are not exceptions of the
  program or of the provider client and stay outside the model.
\<close>

datatype exn_class =
    FileNotFoundError
  | ValueError
  | RuntimeError
  | TomlDecodeError
  | AttributeError
  | OtherException string

datatype exn = Exn exn_class string

fun str_exn :: "exn \<Rightarrow> string" where
  "str_exn (Exn c m) = m"

fun exn_class_of :: "exn \<Rightarrow> exn_class" where
  "exn_class_of (Exn c m) = c"

text \<open>Decimal text of an integer, as \<^verbatim>\<open>str(n)\<close> and an f-string field give it.\<close>

definition digit_char :: "nat \<Rightarrow> char" where
  "digit_char d = ''0123456789'' ! d"

fun str_nat :: "nat \<Rightarrow> string" where
  "str_nat n = (if n < 10 then [digit_char n] else str_nat (n div 10) @ [digit_char (n mod 10)])"

declare str_nat.simps [simp del]

definition str_int :: "int \<Rightarrow> string" where
  "str_int i = (if i < 0 then CHR ''-'' # str_nat (nat (- i)) else str_nat (nat i))"

text \<open>\<^verbatim>\<open>str(x)\<close> of an optional string: \<^verbatim>\<open>None\<close> prints as \<^verbatim>\<open>None\<close>.\<close>

fun str_opt :: "string option \<Rightarrow> string" where
  "str_opt None = ''None''"
| "str_opt (Some s) = s"

text \<open>
  An expression that may raise has type \<open>exn + 'a\<close>. Reading an attribute of
  \<^verbatim>\<open>None\<close> raises AttributeError; \<^verbatim>\<open>a and b\<close> evaluates \<open>b\<close> only when \<open>a\<close> is
  truthy; a conditional expression evaluates its test first and then one branch.
\<close>

definition ebind :: "exn + 'a \<Rightarrow> ('a \<Rightarrow> exn + 'b) \<Rightarrow> exn + 'b" where
  "ebind m f = (case m of Inl e \<Rightarrow> Inl e | Inr x \<Rightarrow> f x)"

definition attr :: "'a option \<Rightarrow> ('a \<Rightarrow> 'b) \<Rightarrow> exn + 'b" where
  "attr obj field =
     (case obj of
        None \<Rightarrow> Inl (Exn AttributeError ''NoneType object has no such attribute'')
      | Some x \<Rightarrow> Inr (field x))"

text \<open>Truthiness of an optional object (no \<^verbatim>\<open>__bool__\<close>, no \<^verbatim>\<open>__len__\<close>), of an
  optional string and of an optional list.\<close>

definition truthy :: "'a option \<Rightarrow> bool" where
  "truthy obj = (obj \<noteq> None)"

definition truthy_seq :: "'a list option \<Rightarrow> bool" where
  "truthy_seq xs = (xs \<noteq> None \<and> xs \<noteq> Some [])"

definition py_and :: "bool \<Rightarrow> (exn + bool) \<Rightarrow> exn + bool" where
  "py_and a b = (if a then b else Inr False)"

definition py_if :: "(exn + bool) \<Rightarrow> (exn + 'a) \<Rightarrow> (exn + 'a) \<Rightarrow> exn + 'a" where
  "py_if c t e = ebind c (\<lambda>b. if b then t else e)"

text \<open>A dict display evaluates its entries from left to right; the first exception ends it.\<close>

fun eval_items :: "(string \<times> (exn + pyval)) list \<Rightarrow> exn + (string \<times> pyval) list" where
  "eval_items [] = Inr []"
| "eval_items ((k, v) # kvs) =
     ebind v (\<lambda>x. ebind (eval_items kvs) (\<lambda>rest. Inr ((k, x) # rest)))"

definition py_dict :: "(string \<times> (exn + pyval)) list \<Rightarrow> exn + pyval" where
  "py_dict kvs = ebind (eval_items kvs) (\<lambda>items. Inr (PDict items))"

fun eval_list :: "(exn + 'a) list \<Rightarrow> exn + 'a list" where
  "eval_list [] = Inr []"
| "eval_list (v # vs) = ebind v (\<lambda>x. ebind (eval_list vs) (\<lambda>rest. Inr (x # rest)))"

text \<open>\<^verbatim>\<open>d[k]\<close> read back from a result dictionary.\<close>

fun dict_get :: "pyval \<Rightarrow> string \<Rightarrow> pyval option" where
  "dict_get (PDict kvs) k = map_of kvs k"
| "dict_get _ k = None"

fun dict_keys :: "pyval \<Rightarrow> string list" where
  "dict_keys (PDict kvs) = map fst kvs"
| "dict_keys _ = []"

section \<open>Provider objects\<close>

text \<open>
  The objects of the provider SDK, with the attributes the program reads. An attribute
  that the program only copies into its result is a \<open>pyval\<close>; an attribute that it
  tests or dereferences has its structure. A timestamp is known by its
  \<^verbatim>\<open>isoformat()\<close> text.
\<close>

datatype datetime = Datetime (isoformat: string)

record location =
  location_id :: pyval
  location_name :: pyval
  location_description :: pyval
  location_country :: pyval
  location_city :: pyval
  location_latitude :: pyval
  location_longitude :: pyval
  location_network_zone :: pyval

record datacenter =
  datacenter_name :: pyval
  datacenter_location :: "location option"

datatype price_location =
    PriceLocationFalsy
  | PriceLocation "pyval option"

record price =
  price_hourly :: "pyval option"
  price_monthly :: "pyval option"
  price_location :: "price_location option"

record server_type =
  server_type_id :: pyval
  server_type_name :: pyval
  server_type_description :: pyval
  server_type_cores :: pyval
  server_type_memory :: pyval
  server_type_disk :: pyval
  server_type_storage_type :: pyval
  server_type_cpu_type :: pyval
  server_type_prices :: "price list option"

record image =
  image_id :: pyval
  image_name :: pyval
  image_description :: pyval
  image_type :: pyval
  image_status :: pyval
  image_os_flavor :: pyval
  image_os_version :: pyval
  image_architecture :: pyval
  image_disk_size :: pyval
  image_created :: "datetime option"

record ip_address =
  ip :: pyval

record public_net =
  public_net_ipv4 :: "ip_address option"
  public_net_ipv6 :: "ip_address option"

record server_protection =
  protection_delete :: pyval
  protection_rebuild :: pyval

record server =
  server_id :: int
  server_name :: pyval
  server_status :: pyval
  server_created :: "datetime option"
  server_server_type :: "server_type option"
  server_image :: "image option"
  server_datacenter :: "datacenter option"
  server_public_net :: "public_net option"
  server_included_traffic :: pyval
  server_outgoing_traffic :: pyval
  server_ingoing_traffic :: pyval
  server_backup_window :: pyval
  server_rescue_enabled :: pyval
  server_locked :: pyval
  server_protection :: "server_protection option"
  server_labels :: pyval
  server_volumes :: "int list option"

record volume_protection =
  volume_protection_delete :: pyval

record volume =
  volume_id :: int
  volume_name :: pyval
  volume_size :: int
  volume_location :: "location option"
  volume_server :: "server option"
  volume_linux_device :: pyval
  volume_protection :: "volume_protection option"
  volume_labels :: pyval
  volume_format :: pyval
  volume_created :: "datetime option"
  volume_status :: pyval

record ssh_key =
  ssh_key_id :: int
  ssh_key_name :: pyval
  ssh_key_fingerprint :: pyval
  ssh_key_public_key :: pyval
  ssh_key_labels :: pyval
  ssh_key_created :: "datetime option"

record firewall_rule =
  rule_direction :: string
  rule_protocol :: string
  rule_source_ips :: "string list"
  rule_port :: "string option"
  rule_destination_ips :: "string list option"
  rule_description :: "string option"

record applied_resource =
  applied_resource_type :: string
  applied_resource_server :: "server option"

record firewall_resource =
  resource_type :: string
  resource_server :: "server option"
  resource_label_selector :: "string option"
  resource_applied_to_resources :: "applied_resource list option"

record firewall =
  firewall_id :: int
  firewall_name :: pyval
  firewall_rules :: "firewall_rule list option"
  firewall_applied_to :: "firewall_resource list option"
  firewall_labels :: pyval
  firewall_created :: "datetime option"

record action =
  action_id :: pyval
  action_status :: pyval
  action_command :: pyval
  action_progress :: pyval
  action_error :: pyval
  action_started :: "datetime option"
  action_finished :: "datetime option"

section \<open>Shape converters\<close>

text \<open>
  \<^verbatim>\<open>x.isoformat() if x else None\<close>, written out at every timestamp of the source.
\<close>

definition iso_or_none :: "datetime option \<Rightarrow> exn + pyval" where
  "iso_or_none x =
     py_if (Inr (truthy x)) (attr x (\<lambda>t. PStr (isoformat t))) (Inr PNone)"

definition server_to_dict :: "server \<Rightarrow> exn + pyval" where
  "server_to_dict server = py_dict
     [(''id'', Inr (PInt (server_id server))),
      (''name'', Inr (server_name server)),
      (''status'', Inr (server_status server)),
      (''created'', iso_or_none (server_created server)),
      (''server_type'',
         py_if (Inr (truthy (server_server_type server)))
           (attr (server_server_type server) server_type_name) (Inr PNone)),
      (''image'',
         py_if (Inr (truthy (server_image server)))
           (attr (server_image server) image_name) (Inr PNone)),
      (''datacenter'',
         py_if (Inr (truthy (server_datacenter server)))
           (attr (server_datacenter server) datacenter_name) (Inr PNone)),
      (''location'',
         py_if (py_and (truthy (server_datacenter server))
                  (ebind (attr (server_datacenter server) datacenter_location)
                     (\<lambda>l. Inr (truthy l))))
           (ebind (attr (server_datacenter server) datacenter_location)
              (\<lambda>l. attr l location_name))
           (Inr PNone)),
      (''public_net'', py_dict
         [(''ipv4'',
             py_if (py_and (truthy (server_public_net server))
                      (ebind (attr (server_public_net server) public_net_ipv4)
                         (\<lambda>a. Inr (truthy a))))
               (ebind (attr (server_public_net server) public_net_ipv4) (\<lambda>a. attr a ip))
               (Inr PNone)),
          (''ipv6'',
             py_if (py_and (truthy (server_public_net server))
                      (ebind (attr (server_public_net server) public_net_ipv6)
                         (\<lambda>a. Inr (truthy a))))
               (ebind (attr (server_public_net server) public_net_ipv6) (\<lambda>a. attr a ip))
               (Inr PNone))]),
      (''included_traffic'', Inr (server_included_traffic server)),
      (''outgoing_traffic'', Inr (server_outgoing_traffic server)),
      (''ingoing_traffic'', Inr (server_ingoing_traffic server)),
      (''backup_window'', Inr (server_backup_window server)),
      (''rescue_enabled'', Inr (server_rescue_enabled server)),
      (''locked'', Inr (server_locked server)),
      (''protection'', py_dict
         [(''delete'',
             py_if (Inr (truthy (server_protection server)))
               (attr (server_protection server) protection_delete) (Inr (PBool False))),
          (''rebuild'',
             py_if (Inr (truthy (server_protection server)))
               (attr (server_protection server) protection_rebuild) (Inr (PBool False)))]),
      (''labels'', Inr (server_labels server)),
      (''volumes'',
         py_if (Inr (truthy_seq (server_volumes server)))
           (attr (server_volumes server) (\<lambda>vs. PList (map PInt vs)))
           (Inr (PList [])))]"

definition volume_to_dict :: "volume \<Rightarrow> exn + pyval" where
  "volume_to_dict volume = py_dict
     [(''id'', Inr (PInt (volume_id volume))),
      (''name'', Inr (volume_name volume)),
      (''size'', Inr (PInt (volume_size volume))),
      (''location'',
         py_if (Inr (truthy (volume_location volume)))
           (attr (volume_location volume) location_name) (Inr PNone)),
      (''server'',
         py_if (Inr (truthy (volume_server volume)))
           (attr (volume_server volume) (\<lambda>s. PInt (server_id s))) (Inr PNone)),
      (''linux_device'', Inr (volume_linux_device volume)),
      (''protection'', py_dict
         [(''delete'',
             py_if (Inr (truthy (volume_protection volume)))
               (attr (volume_protection volume) volume_protection_delete)
               (Inr (PBool False)))]),
      (''labels'', Inr (volume_labels volume)),
      (''format'', Inr (volume_format volume)),
      (''created'', iso_or_none (volume_created volume)),
      (''status'', Inr (volume_status volume))]"

definition ssh_key_to_dict :: "ssh_key \<Rightarrow> exn + pyval" where
  "ssh_key_to_dict ssh_key = py_dict
     [(''id'', Inr (PInt (ssh_key_id ssh_key))),
      (''name'', Inr (ssh_key_name ssh_key)),
      (''fingerprint'', Inr (ssh_key_fingerprint ssh_key)),
      (''public_key'', Inr (ssh_key_public_key ssh_key)),
      (''labels'', Inr (ssh_key_labels ssh_key)),
      (''created'', iso_or_none (ssh_key_created ssh_key))]"

text \<open>
  The firewall converter. \<^verbatim>\<open>if rule.port:\<close> is a truthiness test: \<^verbatim>\<open>None\<close>, the
  empty string and the empty list all skip the assignment.
\<close>

definition truthy_str :: "string option \<Rightarrow> bool" where
  "truthy_str s = (s \<noteq> None \<and> s \<noteq> Some [])"

fun opt_str :: "string option \<Rightarrow> pyval" where
  "opt_str None = PNone"
| "opt_str (Some s) = PStr s"

fun opt_str_list :: "string list option \<Rightarrow> pyval" where
  "opt_str_list None = PNone"
| "opt_str_list (Some xs) = PList (map PStr xs)"

definition rule_to_dict :: "firewall_rule \<Rightarrow> pyval" where
  "rule_to_dict rule = PDict
     ([(''direction'', PStr (rule_direction rule)),
       (''protocol'', PStr (rule_protocol rule)),
       (''source_ips'', PList (map PStr (rule_source_ips rule)))]
      @ (if truthy_str (rule_port rule) then [(''port'', opt_str (rule_port rule))] else [])
      @ (if truthy_seq (rule_destination_ips rule)
         then [(''destination_ips'', opt_str_list (rule_destination_ips rule))] else [])
      @ (if truthy_str (rule_description rule)
         then [(''description'', opt_str (rule_description rule))] else []))"

definition server_ref_dict :: "server option \<Rightarrow> exn + pyval" where
  "server_ref_dict s = py_dict
     [(''id'', attr s (\<lambda>x. PInt (server_id x))), (''name'', attr s server_name)]"

definition applied_resource_to_dict :: "applied_resource \<Rightarrow> exn + pyval" where
  "applied_resource_to_dict applied_resource = py_dict
     ([(''type'', Inr (PStr (applied_resource_type applied_resource)))]
      @ (if truthy (applied_resource_server applied_resource)
         then [(''server'', server_ref_dict (applied_resource_server applied_resource))]
         else []))"

definition resource_to_dict :: "firewall_resource \<Rightarrow> exn + pyval" where
  "resource_to_dict resource = py_dict
     ([(''type'', Inr (PStr (resource_type resource)))]
      @ (if truthy (resource_server resource)
         then [(''server'', server_ref_dict (resource_server resource))] else [])
      @ (if truthy (resource_label_selector resource)
         then [(''label_selector'',
                 py_dict [(''selector'', attr (resource_label_selector resource) PStr)])]
         else [])
      @ (if truthy_seq (resource_applied_to_resources resource)
         then [(''applied_to_resources'',
                 ebind (attr (resource_applied_to_resources resource) id)
                   (\<lambda>rs. ebind (eval_list (map applied_resource_to_dict rs))
                      (\<lambda>ds. Inr (PList ds))))]
         else []))"

definition firewall_to_dict :: "firewall \<Rightarrow> exn + pyval" where
  "firewall_to_dict firewall = py_dict
     [(''id'', Inr (PInt (firewall_id firewall))),
      (''name'', Inr (firewall_name firewall)),
      (''rules'',
         py_if (Inr (truthy_seq (firewall_rules firewall)))
           (attr (firewall_rules firewall) (\<lambda>rs. PList (map rule_to_dict rs)))
           (Inr (PList []))),
      (''applied_to'',
         py_if (Inr (truthy_seq (firewall_applied_to firewall)))
           (ebind (attr (firewall_applied_to firewall) id)
              (\<lambda>rs. ebind (eval_list (map resource_to_dict rs)) (\<lambda>ds. Inr (PList ds))))
           (Inr (PList []))),
      (''labels'', Inr (firewall_labels firewall)),
      (''created'', iso_or_none (firewall_created firewall))]"

text \<open>
  The action descriptor \<^verbatim>\<open>{"id": action.id, ...} if action else None\<close>, written out in
  every handler that receives an action.
\<close>

definition action_fields :: "action option \<Rightarrow> exn + pyval" where
  "action_fields action = py_dict
     [(''id'', attr action action_id),
      (''status'', attr action action_status),
      (''command'', attr action action_command),
      (''progress'', attr action action_progress),
      (''error'', attr action action_error),
      (''started'', ebind (attr action action_started) iso_or_none),
      (''finished'', ebind (attr action action_finished) iso_or_none)]"

definition action_to_dict :: "action option \<Rightarrow> exn + pyval" where
  "action_to_dict action = py_if (Inr (truthy action)) (action_fields action) (Inr PNone)"

text \<open>\<^verbatim>\<open>[{...} for action in actions] if actions else None\<close>.\<close>

definition actions_to_list :: "action list option \<Rightarrow> exn + pyval" where
  "actions_to_list actions =
     py_if (Inr (truthy_seq actions))
       (ebind (attr actions id)
          (\<lambda>as. ebind (eval_list (map (\<lambda>a. action_fields (Some a)) as))
             (\<lambda>ds. Inr (PList ds))))
       (Inr PNone)"


section \<open>Credential resolver\<close>

text \<open>
  \<^verbatim>\<open>authenticate\<close> reads \<^verbatim>\<open>~/.config/hcloud/cli.toml\<close>. What it sees of the outside
  world is whether the file exists and what \<^verbatim>\<open>toml.load\<close> gives for it: an exception
  (TomlDecodeError for malformed syntax, anything else for an unreadable file) or the
  parsed table, with the keys of the CLI's configuration format. A key that is missing
  reads as \<^verbatim>\<open>None\<close> through \<^verbatim>\<open>dict.get\<close>.
\<close>

record cli_context =
  context_name :: "string option"
  context_token :: "string option"

record config =
  config_active_context :: "string option"
  config_contexts :: "cli_context list option"

record environment =
  config_path_exists :: bool
  toml_load :: "exn + config"

definition sq :: string where
  "sq = [CHR 0x27]"

text \<open>The loop over the contexts and the \<^verbatim>\<open>raise\<close> after it (lines 68 to 77).\<close>

fun find_token :: "string \<Rightarrow> cli_context list \<Rightarrow> exn + string" where
  "find_token active_context [] =
     Inl (Exn ValueError
       (''Active context '' @ sq @ active_context @ sq @ '' not found in contexts''))"
| "find_token active_context (context # contexts) =
     (if context_name context = Some active_context then
        (case context_token context of
           None \<Rightarrow>
             Inl (Exn ValueError (''No token found for context '' @ sq @ active_context @ sq))
         | Some token \<Rightarrow>
             if token = [] then
               Inl (Exn ValueError (''No token found for context '' @ sq @ active_context @ sq))
             else Inr token)
      else find_token active_context contexts)"

text \<open>The body of the \<^verbatim>\<open>try\<close> (lines 58 to 77).\<close>

definition authenticate_body :: "environment \<Rightarrow> exn + string" where
  "authenticate_body env =
     ebind (toml_load env) (\<lambda>config.
       case config_active_context config of
         None \<Rightarrow> Inl (Exn ValueError ''No active context found in hcloud configuration'')
       | Some active_context \<Rightarrow>
           if active_context = [] then
             Inl (Exn ValueError ''No active context found in hcloud configuration'')
           else
             find_token active_context
               (case config_contexts config of None \<Rightarrow> [] | Some contexts \<Rightarrow> contexts))"

text \<open>
  The two \<^verbatim>\<open>except\<close> clauses (lines 79 to 82): the first matches TomlDecodeError, the
  second every other exception, the ValueErrors raised in the body included.
\<close>

definition authenticate_except :: "exn \<Rightarrow> exn + string" where
  "authenticate_except e =
     (if exn_class_of e = TomlDecodeError then
        Inl (Exn ValueError (''Invalid TOML format in hcloud configuration: '' @ str_exn e))
      else Inl (Exn RuntimeError (''Error reading hcloud configuration: '' @ str_exn e)))"

definition authenticate :: "environment \<Rightarrow> exn + string" where
  "authenticate env =
     (if \<not> config_path_exists env then
        Inl (Exn FileNotFoundError
          (''hcloud CLI configuration not found. ''
           @ ''Please run login to hcloud to setup the hcloud CLI first.''))
      else
        (case authenticate_body env of
           Inl e \<Rightarrow> authenticate_except e
         | Inr token \<Rightarrow> Inr token))"

text \<open>
  Line 86, run when the module is imported: \<^verbatim>\<open>client = Client(token=authenticate())\<close>.
  The argument is evaluated first; when it raises, no client is constructed and the
  import fails.
\<close>

datatype provider_handle = Client string

definition module_client :: "environment \<Rightarrow> exn + provider_handle" where
  "module_client env = ebind (authenticate env) (\<lambda>token. Inr (Client token))"

section \<open>Statements, the provider client and its call log\<close>

text \<open>
  A statement of a handler runs on a world: the state of the provider (an arbitrary type
  \<open>'s\<close>, changed by every provider call) and the log of the provider calls made so far.
  It ends in one of three ways: it falls through to the next statement with a value,
  it executes \<^verbatim>\<open>return\<close>, or it raises.
\<close>

datatype call =
    ServersGetAll
  | ServersGetById int
  | ServersCreate string
  | ServersDelete int
  | ServersPowerOn int
  | ServersPowerOff int
  | ServersReboot int
  | ServerTypesGetAll
  | ServerTypesGetByName string
  | ImagesGetAll
  | ImagesGetByName string
  | LocationsGetAll
  | LocationsGetByName "string option"
  | SshKeysGetAll
  | SshKeysGetById int
  | SshKeysGetByName string
  | SshKeysCreate string
  | SshKeysUpdate int
  | SshKeysDelete int
  | FirewallsGetAll
  | FirewallsGetById int
  | FirewallsCreate string
  | FirewallsUpdate int
  | FirewallsDelete int
  | FirewallsSetRules int
  | FirewallsApplyToResources int
  | FirewallsRemoveFromResources int
  | VolumesGetAll
  | VolumesGetById int
  | VolumesCreate string
  | VolumesDelete int
  | VolumesAttach int int
  | VolumesDetach int
  | VolumesResize int int

datatype ('r, 'a) flow = Continue 'a | Return 'r | Raise exn

type_synonym 's world = "'s \<times> call list"

type_synonym ('s, 'r, 'a) stmt = "'s world \<Rightarrow> ('r, 'a) flow \<times> 's world"

definition continue :: "'a \<Rightarrow> ('s, 'r, 'a) stmt" where
  "continue a w = (Continue a, w)"

definition ret :: "'r \<Rightarrow> ('s, 'r, 'a) stmt" where
  "ret r w = (Return r, w)"

definition seq :: "('s, 'r, 'a) stmt \<Rightarrow> ('a \<Rightarrow> ('s, 'r, 'b) stmt) \<Rightarrow> ('s, 'r, 'b) stmt" where
  "seq m f w =
     (case m w of
        (Continue a, w') \<Rightarrow> f a w'
      | (Return r, w') \<Rightarrow> (Return r, w')
      | (Raise e, w') \<Rightarrow> (Raise e, w'))"

text \<open>\<^verbatim>\<open>try: body  except Exception as e: handler\<close>.\<close>

definition try_except ::
  "('s, 'r, 'a) stmt \<Rightarrow> (exn \<Rightarrow> ('s, 'r, 'a) stmt) \<Rightarrow> ('s, 'r, 'a) stmt" where
  "try_except body handler w =
     (case body w of
        (Raise e, w') \<Rightarrow> handler e w'
      | (Continue a, w') \<Rightarrow> (Continue a, w')
      | (Return r, w') \<Rightarrow> (Return r, w'))"

text \<open>Evaluating an expression that may raise.\<close>

definition expr :: "exn + 'a \<Rightarrow> ('s, 'r, 'a) stmt" where
  "expr e w = (case e of Inl x \<Rightarrow> (Raise x, w) | Inr v \<Rightarrow> (Continue v, w))"

text \<open>
  A provider operation answers with a value or an exception and a new provider state.
  Calling it appends the call to the log, whatever the answer.
\<close>

type_synonym ('s, 'a) op = "'s \<Rightarrow> (exn + 'a) \<times> 's"

definition provider_call :: "call \<Rightarrow> ('s, 'a) op \<Rightarrow> ('s, 'r, 'a) stmt" where
  "provider_call c f w =
     (case f (fst w) of
        (Inl e, s') \<Rightarrow> (Raise e, (s', snd w @ [c]))
      | (Inr v, s') \<Rightarrow> (Continue v, (s', snd w @ [c])))"

record create_server_response =
  response_server :: server
  response_action :: "action option"
  response_root_password :: pyval

record create_firewall_response =
  response_firewall :: firewall
  response_actions :: "action list option"

record create_volume_response =
  response_volume :: volume
  response_volume_action :: "action option"
  response_next_actions :: "action list option"

record 's servers_client =
  servers_get_all :: "('s, server list) op"
  servers_get_by_id :: "int \<Rightarrow> ('s, server option) op"
  servers_create ::
    "string \<Rightarrow> server_type \<Rightarrow> image \<Rightarrow> location \<Rightarrow> ssh_key list
      \<Rightarrow> ('s, create_server_response) op"
  servers_delete :: "server \<Rightarrow> ('s, action option) op"
  servers_power_on :: "server \<Rightarrow> ('s, action option) op"
  servers_power_off :: "server \<Rightarrow> ('s, action option) op"
  servers_reboot :: "server \<Rightarrow> ('s, action option) op"

record 's catalog_client =
  server_types_get_all :: "('s, server_type list) op"
  server_types_get_by_name :: "string \<Rightarrow> ('s, server_type option) op"
  images_get_all :: "('s, image list) op"
  images_get_by_name :: "string \<Rightarrow> ('s, image option) op"
  locations_get_all :: "('s, location list) op"
  locations_get_by_name :: "string option \<Rightarrow> ('s, location option) op"

record 's ssh_keys_client =
  ssh_keys_get_all :: "('s, ssh_key list) op"
  ssh_keys_get_by_id :: "int \<Rightarrow> ('s, ssh_key option) op"
  ssh_keys_get_by_name :: "string \<Rightarrow> ('s, ssh_key option) op"
  ssh_keys_create :: "string \<Rightarrow> string \<Rightarrow> pyval \<Rightarrow> ('s, ssh_key) op"
  ssh_keys_update :: "ssh_key \<Rightarrow> string \<Rightarrow> pyval \<Rightarrow> ('s, ssh_key) op"
  ssh_keys_delete :: "ssh_key \<Rightarrow> ('s, pyval) op"

record 's firewalls_client =
  firewalls_get_all :: "('s, firewall list) op"
  firewalls_get_by_id :: "int \<Rightarrow> ('s, firewall option) op"
  firewalls_create ::
    "string \<Rightarrow> firewall_rule list option \<Rightarrow> pyval \<Rightarrow> firewall_resource list option
      \<Rightarrow> ('s, create_firewall_response) op"
  firewalls_update :: "firewall \<Rightarrow> string option \<Rightarrow> pyval \<Rightarrow> ('s, firewall) op"
  firewalls_delete :: "firewall \<Rightarrow> ('s, pyval) op"
  firewalls_set_rules :: "firewall \<Rightarrow> firewall_rule list \<Rightarrow> ('s, action list option) op"
  firewalls_apply_to_resources ::
    "firewall \<Rightarrow> firewall_resource list \<Rightarrow> ('s, action list option) op"
  firewalls_remove_from_resources ::
    "firewall \<Rightarrow> firewall_resource list \<Rightarrow> ('s, action list option) op"

record 's volumes_client =
  volumes_get_all :: "('s, volume list) op"
  volumes_get_by_id :: "int \<Rightarrow> ('s, volume option) op"
  volumes_create ::
    "string \<Rightarrow> int \<Rightarrow> location option \<Rightarrow> server option \<Rightarrow> bool option \<Rightarrow> string option
      \<Rightarrow> pyval \<Rightarrow> ('s, create_volume_response) op"
  volumes_delete :: "volume \<Rightarrow> ('s, pyval) op"
  volumes_attach :: "volume \<Rightarrow> server \<Rightarrow> bool option \<Rightarrow> ('s, action option) op"
  volumes_detach :: "volume \<Rightarrow> ('s, action option) op"
  volumes_resize :: "volume \<Rightarrow> int \<Rightarrow> ('s, action option) op"

record 's client =
  client_servers :: "'s servers_client"
  client_catalog :: "'s catalog_client"
  client_ssh_keys :: "'s ssh_keys_client"
  client_firewalls :: "'s firewalls_client"
  client_volumes :: "'s volumes_client"

text \<open>The calls \<^verbatim>\<open>client.<collection>.<operation>(...)\<close> of the handlers, logged.\<close>

definition call_servers_get_all :: "'s client \<Rightarrow> ('s, 'r, server list) stmt" where
  "call_servers_get_all client = provider_call ServersGetAll (servers_get_all (client_servers client))"

definition call_servers_get_by_id :: "'s client \<Rightarrow> int \<Rightarrow> ('s, 'r, server option) stmt" where
  "call_servers_get_by_id client i =
     provider_call (ServersGetById i) (servers_get_by_id (client_servers client) i)"

definition call_servers_create ::
  "'s client \<Rightarrow> string \<Rightarrow> server_type \<Rightarrow> image \<Rightarrow> location \<Rightarrow> ssh_key list
    \<Rightarrow> ('s, 'r, create_server_response) stmt" where
  "call_servers_create client name st img loc keys =
     provider_call (ServersCreate name) (servers_create (client_servers client) name st img loc keys)"

definition call_servers_delete :: "'s client \<Rightarrow> server \<Rightarrow> ('s, 'r, action option) stmt" where
  "call_servers_delete client server =
     provider_call (ServersDelete (server_id server)) (servers_delete (client_servers client) server)"

definition call_servers_power_on :: "'s client \<Rightarrow> server \<Rightarrow> ('s, 'r, action option) stmt" where
  "call_servers_power_on client server =
     provider_call (ServersPowerOn (server_id server)) (servers_power_on (client_servers client) server)"

definition call_servers_power_off :: "'s client \<Rightarrow> server \<Rightarrow> ('s, 'r, action option) stmt" where
  "call_servers_power_off client server =
     provider_call (ServersPowerOff (server_id server))
       (servers_power_off (client_servers client) server)"

definition call_servers_reboot :: "'s client \<Rightarrow> server \<Rightarrow> ('s, 'r, action option) stmt" where
  "call_servers_reboot client server =
     provider_call (ServersReboot (server_id server)) (servers_reboot (client_servers client) server)"

definition call_server_types_get_all :: "'s client \<Rightarrow> ('s, 'r, server_type list) stmt" where
  "call_server_types_get_all client =
     provider_call ServerTypesGetAll (server_types_get_all (client_catalog client))"

definition call_server_types_get_by_name ::
  "'s client \<Rightarrow> string \<Rightarrow> ('s, 'r, server_type option) stmt" where
  "call_server_types_get_by_name client n =
     provider_call (ServerTypesGetByName n) (server_types_get_by_name (client_catalog client) n)"

definition call_images_get_all :: "'s client \<Rightarrow> ('s, 'r, image list) stmt" where
  "call_images_get_all client = provider_call ImagesGetAll (images_get_all (client_catalog client))"

definition call_images_get_by_name :: "'s client \<Rightarrow> string \<Rightarrow> ('s, 'r, image option) stmt" where
  "call_images_get_by_name client n =
     provider_call (ImagesGetByName n) (images_get_by_name (client_catalog client) n)"

definition call_locations_get_all :: "'s client \<Rightarrow> ('s, 'r, location list) stmt" where
  "call_locations_get_all client =
     provider_call LocationsGetAll (locations_get_all (client_catalog client))"

definition call_locations_get_by_name ::
  "'s client \<Rightarrow> string option \<Rightarrow> ('s, 'r, location option) stmt" where
  "call_locations_get_by_name client n =
     provider_call (LocationsGetByName n) (locations_get_by_name (client_catalog client) n)"

definition call_ssh_keys_get_all :: "'s client \<Rightarrow> ('s, 'r, ssh_key list) stmt" where
  "call_ssh_keys_get_all client =
     provider_call SshKeysGetAll (ssh_keys_get_all (client_ssh_keys client))"

definition call_ssh_keys_get_by_id :: "'s client \<Rightarrow> int \<Rightarrow> ('s, 'r, ssh_key option) stmt" where
  "call_ssh_keys_get_by_id client i =
     provider_call (SshKeysGetById i) (ssh_keys_get_by_id (client_ssh_keys client) i)"

definition call_ssh_keys_get_by_name ::
  "'s client \<Rightarrow> string \<Rightarrow> ('s, 'r, ssh_key option) stmt" where
  "call_ssh_keys_get_by_name client n =
     provider_call (SshKeysGetByName n) (ssh_keys_get_by_name (client_ssh_keys client) n)"

definition call_ssh_keys_create ::
  "'s client \<Rightarrow> string \<Rightarrow> string \<Rightarrow> pyval \<Rightarrow> ('s, 'r, ssh_key) stmt" where
  "call_ssh_keys_create client name public_key labels =
     provider_call (SshKeysCreate name) (ssh_keys_create (client_ssh_keys client) name public_key labels)"

definition call_ssh_keys_update ::
  "'s client \<Rightarrow> ssh_key \<Rightarrow> string \<Rightarrow> pyval \<Rightarrow> ('s, 'r, ssh_key) stmt" where
  "call_ssh_keys_update client key name labels =
     provider_call (SshKeysUpdate (ssh_key_id key))
       (ssh_keys_update (client_ssh_keys client) key name labels)"

definition call_ssh_keys_delete :: "'s client \<Rightarrow> ssh_key \<Rightarrow> ('s, 'r, pyval) stmt" where
  "call_ssh_keys_delete client key =
     provider_call (SshKeysDelete (ssh_key_id key)) (ssh_keys_delete (client_ssh_keys client) key)"

definition call_firewalls_get_all :: "'s client \<Rightarrow> ('s, 'r, firewall list) stmt" where
  "call_firewalls_get_all client =
     provider_call FirewallsGetAll (firewalls_get_all (client_firewalls client))"

definition call_firewalls_get_by_id :: "'s client \<Rightarrow> int \<Rightarrow> ('s, 'r, firewall option) stmt" where
  "call_firewalls_get_by_id client i =
     provider_call (FirewallsGetById i) (firewalls_get_by_id (client_firewalls client) i)"

definition call_firewalls_create ::
  "'s client \<Rightarrow> string \<Rightarrow> firewall_rule list option \<Rightarrow> pyval \<Rightarrow> firewall_resource list option
    \<Rightarrow> ('s, 'r, create_firewall_response) stmt" where
  "call_firewalls_create client name rules labels resources =
     provider_call (FirewallsCreate name)
       (firewalls_create (client_firewalls client) name rules labels resources)"

definition call_firewalls_update ::
  "'s client \<Rightarrow> firewall \<Rightarrow> string option \<Rightarrow> pyval \<Rightarrow> ('s, 'r, firewall) stmt" where
  "call_firewalls_update client fw name labels =
     provider_call (FirewallsUpdate (firewall_id fw))
       (firewalls_update (client_firewalls client) fw name labels)"

definition call_firewalls_delete :: "'s client \<Rightarrow> firewall \<Rightarrow> ('s, 'r, pyval) stmt" where
  "call_firewalls_delete client fw =
     provider_call (FirewallsDelete (firewall_id fw)) (firewalls_delete (client_firewalls client) fw)"

definition call_firewalls_set_rules ::
  "'s client \<Rightarrow> firewall \<Rightarrow> firewall_rule list \<Rightarrow> ('s, 'r, action list option) stmt" where
  "call_firewalls_set_rules client fw rules =
     provider_call (FirewallsSetRules (firewall_id fw))
       (firewalls_set_rules (client_firewalls client) fw rules)"

definition call_firewalls_apply_to_resources ::
  "'s client \<Rightarrow> firewall \<Rightarrow> firewall_resource list \<Rightarrow> ('s, 'r, action list option) stmt" where
  "call_firewalls_apply_to_resources client fw resources =
     provider_call (FirewallsApplyToResources (firewall_id fw))
       (firewalls_apply_to_resources (client_firewalls client) fw resources)"

definition call_firewalls_remove_from_resources ::
  "'s client \<Rightarrow> firewall \<Rightarrow> firewall_resource list \<Rightarrow> ('s, 'r, action list option) stmt" where
  "call_firewalls_remove_from_resources client fw resources =
     provider_call (FirewallsRemoveFromResources (firewall_id fw))
       (firewalls_remove_from_resources (client_firewalls client) fw resources)"

definition call_volumes_get_all :: "'s client \<Rightarrow> ('s, 'r, volume list) stmt" where
  "call_volumes_get_all client = provider_call VolumesGetAll (volumes_get_all (client_volumes client))"

definition call_volumes_get_by_id :: "'s client \<Rightarrow> int \<Rightarrow> ('s, 'r, volume option) stmt" where
  "call_volumes_get_by_id client i =
     provider_call (VolumesGetById i) (volumes_get_by_id (client_volumes client) i)"

definition call_volumes_create ::
  "'s client \<Rightarrow> string \<Rightarrow> int \<Rightarrow> location option \<Rightarrow> server option \<Rightarrow> bool option
    \<Rightarrow> string option \<Rightarrow> pyval \<Rightarrow> ('s, 'r, create_volume_response) stmt" where
  "call_volumes_create client name sz loc srv automount fmt labels =
     provider_call (VolumesCreate name)
       (volumes_create (client_volumes client) name sz loc srv automount fmt labels)"

definition call_volumes_delete :: "'s client \<Rightarrow> volume \<Rightarrow> ('s, 'r, pyval) stmt" where
  "call_volumes_delete client vol =
     provider_call (VolumesDelete (volume_id vol)) (volumes_delete (client_volumes client) vol)"

definition call_volumes_attach ::
  "'s client \<Rightarrow> volume \<Rightarrow> server \<Rightarrow> bool option \<Rightarrow> ('s, 'r, action option) stmt" where
  "call_volumes_attach client vol srv automount =
     provider_call (VolumesAttach (volume_id vol) (server_id srv))
       (volumes_attach (client_volumes client) vol srv automount)"

definition call_volumes_detach :: "'s client \<Rightarrow> volume \<Rightarrow> ('s, 'r, action option) stmt" where
  "call_volumes_detach client vol =
     provider_call (VolumesDetach (volume_id vol)) (volumes_detach (client_volumes client) vol)"

definition call_volumes_resize ::
  "'s client \<Rightarrow> volume \<Rightarrow> int \<Rightarrow> ('s, 'r, action option) stmt" where
  "call_volumes_resize client vol sz =
     provider_call (VolumesResize (volume_id vol) sz) (volumes_resize (client_volumes client) vol sz)"

section \<open>Request models\<close>

text \<open>
  The parameter classes. A class with the single field \<^verbatim>\<open>server_id\<close>,
  \<^verbatim>\<open>firewall_id\<close>, \<^verbatim>\<open>volume_id\<close> or \<^verbatim>\<open>ssh_key_id\<close> is that integer. An entry of
  \<^verbatim>\<open>ssh_keys\<close> is an integer by its declared type; the handler also has a branch
  for a string, kept here.
\<close>

datatype ssh_key_ref = KeyId int | KeyName string

record create_server_params =
  csp_name :: string
  csp_server_type :: string
  csp_image :: string
  csp_location :: "string option"
  csp_ssh_keys :: "ssh_key_ref list option"

record firewall_rule_param =
  frp_direction :: string
  frp_protocol :: string
  frp_source_ips :: "string list"
  frp_port :: "string option"
  frp_destination_ips :: "string list option"
  frp_description :: "string option"

record firewall_resource_param =
  res_type :: string
  res_server_id :: "int option"
  res_label_selector :: "string option"

record create_firewall_params =
  cfp_name :: string
  cfp_rules :: "firewall_rule_param list option"
  cfp_resources :: "firewall_resource_param list option"
  cfp_labels :: pyval

record update_firewall_params =
  ufp_firewall_id :: int
  ufp_name :: "string option"
  ufp_labels :: pyval

record set_firewall_rules_params =
  sfr_firewall_id :: int
  sfr_rules :: "firewall_rule_param list"

record firewall_resources_params =
  frs_firewall_id :: int
  frs_resources :: "firewall_resource_param list"

record create_volume_params =
  cvp_name :: string
  cvp_size :: int
  cvp_location :: "string option"
  cvp_server :: "int option"
  cvp_automount :: "bool option"
  cvp_format :: "string option"
  cvp_labels :: pyval

record attach_volume_params =
  avp_volume_id :: int
  avp_server_id :: int
  avp_automount :: "bool option"

record resize_volume_params =
  rvp_volume_id :: int
  rvp_size :: int

record create_ssh_key_params =
  ckp_name :: string
  ckp_public_key :: string
  ckp_labels :: pyval

record update_ssh_key_params =
  ukp_ssh_key_id :: int
  ukp_name :: string
  ukp_labels :: pyval

section \<open>Tool handlers\<close>

definition error_dict :: "string \<Rightarrow> pyval" where
  "error_dict msg = PDict [(''error'', PStr msg)]"

text \<open>\<^verbatim>\<open>return { ... }\<close>: the dict display is evaluated, then returned.\<close>

definition return_dict :: "(string \<times> (exn + pyval)) list \<Rightarrow> ('s, pyval, 'a) stmt" where
  "return_dict kvs = seq (expr (py_dict kvs)) ret"

text \<open>A list comprehension \<^verbatim>\<open>[f(x) for x in xs]\<close>.\<close>

definition comprehension :: "('a \<Rightarrow> exn + pyval) \<Rightarrow> 'a list \<Rightarrow> exn + pyval" where
  "comprehension f xs = ebind (eval_list (map f xs)) (\<lambda>ds. Inr (PList ds))"

text \<open>Truthiness of an optional integer: \<^verbatim>\<open>None\<close> and \<^verbatim>\<open>0\<close> are falsy.\<close>

definition truthy_int :: "int option \<Rightarrow> bool" where
  "truthy_int i = (i \<noteq> None \<and> i \<noteq> Some 0)"

subsection \<open>Servers\<close>

definition list_servers :: "'s client \<Rightarrow> ('s, pyval, unit) stmt" where
  "list_servers client =
     try_except
       (seq (call_servers_get_all client) (\<lambda>servers.
          return_dict [(''servers'', comprehension server_to_dict servers)]))
       (\<lambda>e. ret (error_dict (''Failed to list servers: '' @ str_exn e)))"

definition get_server :: "'s client \<Rightarrow> int \<Rightarrow> ('s, pyval, unit) stmt" where
  "get_server client sid =
     try_except
       (seq (call_servers_get_by_id client sid) (\<lambda>server.
          case server of
            None \<Rightarrow> ret (error_dict (''Server with ID '' @ str_int sid @ '' not found''))
          | Some srv \<Rightarrow> return_dict [(''server'', server_to_dict srv)]))
       (\<lambda>e. ret (error_dict (''Failed to get server: '' @ str_exn e)))"

text \<open>
  The loop over \<^verbatim>\<open>params.ssh_keys\<close> (lines 468 to 478): a key that does not resolve is
  left out of the list and the loop goes on.
\<close>

fun resolve_ssh_keys ::
  "'s client \<Rightarrow> ssh_key_ref list \<Rightarrow> ssh_key list \<Rightarrow> ('s, pyval, ssh_key list) stmt" where
  "resolve_ssh_keys client [] ssh_keys = continue ssh_keys"
| "resolve_ssh_keys client (KeyId i # rest) ssh_keys =
     seq (call_ssh_keys_get_by_id client i) (\<lambda>ssh_key_obj.
       case ssh_key_obj of
         Some k \<Rightarrow> resolve_ssh_keys client rest (ssh_keys @ [k])
       | None \<Rightarrow> resolve_ssh_keys client rest ssh_keys)"
| "resolve_ssh_keys client (KeyName n # rest) ssh_keys =
     seq (call_ssh_keys_get_by_name client n) (\<lambda>ssh_key_obj.
       case ssh_key_obj of
         Some k \<Rightarrow> resolve_ssh_keys client rest (ssh_keys @ [k])
       | None \<Rightarrow> resolve_ssh_keys client rest ssh_keys)"

text \<open>\<^verbatim>\<open>ssh_keys = []\<close> and the conditional around the loop (lines 466 to 478).\<close>

definition collect_ssh_keys ::
  "'s client \<Rightarrow> create_server_params \<Rightarrow> ('s, pyval, ssh_key list) stmt" where
  "collect_ssh_keys client params =
     (if truthy_seq (csp_ssh_keys params)
      then seq (expr (attr (csp_ssh_keys params) id)) (\<lambda>refs. resolve_ssh_keys client refs [])
      else continue [])"

text \<open>
  \<^verbatim>\<open>create_server\<close>. The text of a list in an f-string is Python's \<^verbatim>\<open>repr\<close> of it,
  a parameter of the model. The inner \<^verbatim>\<open>try\<close> (lines 435 to 489) ends with the
  provider's answer; the statements after it build the result.
\<close>

definition create_server_lookup ::
  "(pyval \<Rightarrow> string) \<Rightarrow> 's client \<Rightarrow> create_server_params
    \<Rightarrow> ('s, pyval, create_server_response) stmt" where
  "create_server_lookup repr client params =
     seq (call_server_types_get_all client) (\<lambda>server_types.
     seq (call_images_get_all client) (\<lambda>images.
     seq (call_locations_get_all client) (\<lambda>locations.
     seq (call_server_types_get_by_name client (csp_server_type params)) (\<lambda>server_type_obj.
     seq (call_images_get_by_name client (csp_image params)) (\<lambda>image_obj.
     seq (call_locations_get_by_name client (csp_location params)) (\<lambda>location_obj.
       case server_type_obj of
         None \<Rightarrow> ret (error_dict
           (''Server type '' @ sq @ csp_server_type params @ sq
            @ '' not found. Available types: ''
            @ repr (PList (map server_type_name server_types))))
       | Some st \<Rightarrow>
       (case image_obj of
         None \<Rightarrow> ret (error_dict
           (''Image '' @ sq @ csp_image params @ sq
            @ '' not found. Available images: ''
            @ repr (PList (map image_name images))))
       | Some img \<Rightarrow>
       (case location_obj of
         None \<Rightarrow> ret (error_dict
           (''Location '' @ sq @ str_opt (csp_location params) @ sq
            @ '' not found. Available locations: ''
            @ repr (PList (map location_name locations))))
       | Some loc \<Rightarrow>
           seq (collect_ssh_keys client params)
             (\<lambda>ssh_keys. call_servers_create client (csp_name params) st img loc ssh_keys)
       ))))))))"

definition create_server ::
  "(pyval \<Rightarrow> string) \<Rightarrow> 's client \<Rightarrow> create_server_params \<Rightarrow> ('s, pyval, unit) stmt" where
  "create_server repr client params =
     try_except
       (seq (try_except (create_server_lookup repr client params)
               (\<lambda>e. ret (error_dict (''Failed to create server: '' @ str_exn e))))
          (\<lambda>response.
             return_dict
               [(''server'', server_to_dict (response_server response)),
                (''action'', action_to_dict (response_action response)),
                (''root_password'', Inr (response_root_password response))]))
       (\<lambda>e. ret (error_dict (''Failed to create server: '' @ str_exn e)))"

definition delete_server :: "'s client \<Rightarrow> int \<Rightarrow> ('s, pyval, unit) stmt" where
  "delete_server client sid =
     try_except
       (seq (call_servers_get_by_id client sid) (\<lambda>server.
          case server of
            None \<Rightarrow> ret (error_dict (''Server with ID '' @ str_int sid @ '' not found''))
          | Some srv \<Rightarrow>
              seq (call_servers_delete client srv) (\<lambda>action.
                return_dict
                  [(''success'', Inr (PBool True)), (''action'', action_to_dict action)])))
       (\<lambda>e. ret (error_dict (''Failed to delete server: '' @ str_exn e)))"

definition image_to_dict :: "image \<Rightarrow> exn + pyval" where
  "image_to_dict img = py_dict
     [(''id'', Inr (image_id img)),
      (''name'', Inr (image_name img)),
      (''description'', Inr (image_description img)),
      (''type'', Inr (image_type img)),
      (''status'', Inr (image_status img)),
      (''os_flavor'', Inr (image_os_flavor img)),
      (''os_version'', Inr (image_os_version img)),
      (''architecture'', Inr (image_architecture img)),
      (''size_gb'', Inr (image_disk_size img)),
      (''created'', iso_or_none (image_created img))]"

definition list_images :: "'s client \<Rightarrow> ('s, pyval, unit) stmt" where
  "list_images client =
     try_except
       (seq (call_images_get_all client) (\<lambda>images.
          return_dict [(''images'', comprehension image_to_dict images)]))
       (\<lambda>e. ret (error_dict (''Failed to list images: '' @ str_exn e)))"

text \<open>
  A price of a server type (lines 613 to 630). An attribute that the object does not
  have is \<open>None\<close> in the record, so \<^verbatim>\<open>hasattr\<close> is a test for \<open>Some\<close>; reading an
  attribute that is there raises nothing, and the inner \<^verbatim>\<open>except\<close> is not reached.
\<close>

definition price_to_dict :: "price \<Rightarrow> pyval" where
  "price_to_dict price = PDict
     ((case price_hourly price of Some v \<Rightarrow> [(''price_hourly'', v)] | None \<Rightarrow> [])
      @ (case price_monthly price of Some v \<Rightarrow> [(''price_monthly'', v)] | None \<Rightarrow> [])
      @ (case price_location price of
           Some (PriceLocation (Some n)) \<Rightarrow> [(''location'', n)]
         | _ \<Rightarrow> []))"

definition server_type_info :: "server_type \<Rightarrow> exn + pyval" where
  "server_type_info st = py_dict
     [(''id'', Inr (server_type_id st)),
      (''name'', Inr (server_type_name st)),
      (''description'', Inr (server_type_description st)),
      (''cores'', Inr (server_type_cores st)),
      (''memory_gb'', Inr (server_type_memory st)),
      (''disk_gb'', Inr (server_type_disk st)),
      (''storage_type'', Inr (server_type_storage_type st)),
      (''cpu_type'', Inr (server_type_cpu_type st)),
      (''prices'',
         py_if (Inr (truthy_seq (server_type_prices st)))
           (attr (server_type_prices st) (\<lambda>ps. PList (map price_to_dict ps)))
           (Inr (PList [])))]"

definition list_server_types :: "'s client \<Rightarrow> ('s, pyval, unit) stmt" where
  "list_server_types client =
     try_except
       (seq (call_server_types_get_all client) (\<lambda>server_types.
          return_dict [(''server_types'', comprehension server_type_info server_types)]))
       (\<lambda>e. ret (error_dict (''Failed to list server types: '' @ str_exn e)))"

definition location_to_dict :: "location \<Rightarrow> exn + pyval" where
  "location_to_dict location = py_dict
     [(''id'', Inr (location_id location)),
      (''name'', Inr (location_name location)),
      (''description'', Inr (location_description location)),
      (''country'', Inr (location_country location)),
      (''city'', Inr (location_city location)),
      (''latitude'', Inr (location_latitude location)),
      (''longitude'', Inr (location_longitude location)),
      (''network_zone'', Inr (location_network_zone location))]"

definition list_locations :: "'s client \<Rightarrow> ('s, pyval, unit) stmt" where
  "list_locations client =
     try_except
       (seq (call_locations_get_all client) (\<lambda>locations.
          return_dict [(''locations'', comprehension location_to_dict locations)]))
       (\<lambda>e. ret (error_dict (''Failed to list locations: '' @ str_exn e)))"

definition power_on :: "'s client \<Rightarrow> int \<Rightarrow> ('s, pyval, unit) stmt" where
  "power_on client sid =
     try_except
       (seq (call_servers_get_by_id client sid) (\<lambda>server.
          case server of
            None \<Rightarrow> ret (error_dict (''Server with ID '' @ str_int sid @ '' not found''))
          | Some srv \<Rightarrow>
              seq (call_servers_power_on client srv) (\<lambda>action.
                return_dict
                  [(''success'', Inr (PBool True)), (''action'', action_to_dict action)])))
       (\<lambda>e. ret (error_dict (''Failed to power on server: '' @ str_exn e)))"

definition power_off :: "'s client \<Rightarrow> int \<Rightarrow> ('s, pyval, unit) stmt" where
  "power_off client sid =
     try_except
       (seq (call_servers_get_by_id client sid) (\<lambda>server.
          case server of
            None \<Rightarrow> ret (error_dict (''Server with ID '' @ str_int sid @ '' not found''))
          | Some srv \<Rightarrow>
              seq (call_servers_power_off client srv) (\<lambda>action.
                return_dict
                  [(''success'', Inr (PBool True)), (''action'', action_to_dict action)])))
       (\<lambda>e. ret (error_dict (''Failed to power off server: '' @ str_exn e)))"

definition reboot :: "'s client \<Rightarrow> int \<Rightarrow> ('s, pyval, unit) stmt" where
  "reboot client sid =
     try_except
       (seq (call_servers_get_by_id client sid) (\<lambda>server.
          case server of
            None \<Rightarrow> ret (error_dict (''Server with ID '' @ str_int sid @ '' not found''))
          | Some srv \<Rightarrow>
              seq (call_servers_reboot client srv) (\<lambda>action.
                return_dict
                  [(''success'', Inr (PBool True)), (''action'', action_to_dict action)])))
       (\<lambda>e. ret (error_dict (''Failed to reboot server: '' @ str_exn e)))"

subsection \<open>Firewalls\<close>

definition list_firewalls :: "'s client \<Rightarrow> ('s, pyval, unit) stmt" where
  "list_firewalls client =
     try_except
       (seq (call_firewalls_get_all client) (\<lambda>firewalls.
          return_dict [(''firewalls'', comprehension firewall_to_dict firewalls)]))
       (\<lambda>e. ret (error_dict (''Failed to list firewalls: '' @ str_exn e)))"

definition get_firewall :: "'s client \<Rightarrow> int \<Rightarrow> ('s, pyval, unit) stmt" where
  "get_firewall client fid =
     try_except
       (seq (call_firewalls_get_by_id client fid) (\<lambda>firewall.
          case firewall of
            None \<Rightarrow> ret (error_dict (''Firewall with ID '' @ str_int fid @ '' not found''))
          | Some fw \<Rightarrow>
              return_dict [(''firewall'', firewall_to_dict fw)]))
       (\<lambda>e. ret (error_dict (''Failed to get firewall: '' @ str_exn e)))"

text \<open>\<^verbatim>\<open>FirewallRule(direction=rule_param.direction, ...)\<close>: the fields are handed over.\<close>

definition to_rule :: "firewall_rule_param \<Rightarrow> firewall_rule" where
  "to_rule rule_param =
     \<lparr>rule_direction = frp_direction rule_param,
      rule_protocol = frp_protocol rule_param,
      rule_source_ips = frp_source_ips rule_param,
      rule_port = frp_port rule_param,
      rule_destination_ips = frp_destination_ips rule_param,
      rule_description = frp_description rule_param\<rparr>"

text \<open>
  The loop that turns resource parameters into resources, the same text in
  \<^verbatim>\<open>create_firewall\<close> (lines 852 to 879), \<^verbatim>\<open>apply_firewall_to_resources\<close> (lines 1035
  to 1062) and \<^verbatim>\<open>remove_firewall_from_resources\<close> (lines 1109 to 1136). Each entry is
  checked and, for a server, resolved before the next entry is looked at; a failed
  check returns from the handler.
\<close>

fun build_resources ::
  "'s client \<Rightarrow> firewall_resource_param list \<Rightarrow> firewall_resource list
    \<Rightarrow> ('s, pyval, firewall_resource list) stmt" where
  "build_resources client [] resources = continue resources"
| "build_resources client (resource_param # rest) resources =
     (if res_type resource_param = ''server'' then
        (if \<not> truthy_int (res_server_id resource_param) then
           ret (error_dict (''Server ID is required when resource type is '' @ sq @ ''server'' @ sq))
         else
           seq (expr (attr (res_server_id resource_param) id)) (\<lambda>sid.
           seq (call_servers_get_by_id client sid) (\<lambda>server.
             case server of
               None \<Rightarrow> ret (error_dict (''Server with ID '' @ str_int sid @ '' not found''))
             | Some srv \<Rightarrow>
                 build_resources client rest
                   (resources @
                    [\<lparr>resource_type = res_type resource_param,
                      resource_server = Some srv,
                      resource_label_selector = None,
                      resource_applied_to_resources = None\<rparr>]))))
      else if res_type resource_param = ''label_selector'' then
        (if \<not> truthy_str (res_label_selector resource_param) then
           ret (error_dict
             (''Label selector is required when resource type is '' @ sq @ ''label_selector'' @ sq))
         else
           build_resources client rest
             (resources @
              [\<lparr>resource_type = res_type resource_param,
                resource_server = None,
                resource_label_selector = res_label_selector resource_param,
                resource_applied_to_resources = None\<rparr>]))
      else
        ret (error_dict
          (''Invalid resource type: '' @ res_type resource_param @ ''. Must be '' @ sq @ ''server''
           @ sq @ '' or '' @ sq @ ''label_selector'' @ sq)))"

text \<open>
  The first statements of \<^verbatim>\<open>create_firewall\<close>: the rules (lines 834 to 846), built
  without any provider call, and the resources (lines 849 to 879).
\<close>

definition prepare_rules :: "create_firewall_params \<Rightarrow> firewall_rule list option" where
  "prepare_rules params =
     (if truthy_seq (cfp_rules params) then map_option (map to_rule) (cfp_rules params)
      else None)"

definition prepare_resources ::
  "'s client \<Rightarrow> create_firewall_params \<Rightarrow> ('s, pyval, firewall_resource list option) stmt"
  where
  "prepare_resources client params =
     (if truthy_seq (cfp_resources params)
      then seq (expr (attr (cfp_resources params) id)) (\<lambda>rps.
           seq (build_resources client rps []) (\<lambda>resources. continue (Some resources)))
      else continue None)"

definition create_firewall :: "'s client \<Rightarrow> create_firewall_params \<Rightarrow> ('s, pyval, unit) stmt" where
  "create_firewall client params =
     try_except
       (seq (prepare_resources client params) (\<lambda>resources.
        seq (call_firewalls_create client (cfp_name params) (prepare_rules params)
               (cfp_labels params) resources)
          (\<lambda>response.
             return_dict
               [(''firewall'', firewall_to_dict (response_firewall response)),
                (''actions'', actions_to_list (response_actions response))])))
       (\<lambda>e. ret (error_dict (''Failed to create firewall: '' @ str_exn e)))"

definition update_firewall :: "'s client \<Rightarrow> update_firewall_params \<Rightarrow> ('s, pyval, unit) stmt" where
  "update_firewall client params =
     try_except
       (seq (call_firewalls_get_by_id client (ufp_firewall_id params)) (\<lambda>firewall.
          case firewall of
            None \<Rightarrow> ret (error_dict
              (''Firewall with ID '' @ str_int (ufp_firewall_id params) @ '' not found''))
          | Some fw \<Rightarrow>
              seq (call_firewalls_update client fw (ufp_name params) (ufp_labels params))
                (\<lambda>updated_firewall.
                   return_dict [(''firewall'', firewall_to_dict updated_firewall)])))
       (\<lambda>e. ret (error_dict (''Failed to update firewall: '' @ str_exn e)))"

definition delete_firewall :: "'s client \<Rightarrow> int \<Rightarrow> ('s, pyval, unit) stmt" where
  "delete_firewall client fid =
     try_except
       (seq (call_firewalls_get_by_id client fid) (\<lambda>firewall.
          case firewall of
            None \<Rightarrow> ret (error_dict (''Firewall with ID '' @ str_int fid @ '' not found''))
          | Some fw \<Rightarrow>
              seq (call_firewalls_delete client fw) (\<lambda>success.
                return_dict [(''success'', Inr success)])))
       (\<lambda>e. ret (error_dict (''Failed to delete firewall: '' @ str_exn e)))"

definition set_firewall_rules ::
  "'s client \<Rightarrow> set_firewall_rules_params \<Rightarrow> ('s, pyval, unit) stmt" where
  "set_firewall_rules client params =
     try_except
       (seq (call_firewalls_get_by_id client (sfr_firewall_id params)) (\<lambda>firewall.
          case firewall of
            None \<Rightarrow> ret (error_dict
              (''Firewall with ID '' @ str_int (sfr_firewall_id params) @ '' not found''))
          | Some fw \<Rightarrow>
              seq (call_firewalls_set_rules client fw (map to_rule (sfr_rules params)))
                (\<lambda>actions.
                   return_dict
                     [(''success'', Inr (PBool True)), (''actions'', actions_to_list actions)])))
       (\<lambda>e. ret (error_dict (''Failed to set firewall rules: '' @ str_exn e)))"

definition apply_firewall_to_resources ::
  "'s client \<Rightarrow> firewall_resources_params \<Rightarrow> ('s, pyval, unit) stmt" where
  "apply_firewall_to_resources client params =
     try_except
       (seq (call_firewalls_get_by_id client (frs_firewall_id params)) (\<lambda>firewall.
          case firewall of
            None \<Rightarrow> ret (error_dict
              (''Firewall with ID '' @ str_int (frs_firewall_id params) @ '' not found''))
          | Some fw \<Rightarrow>
              seq (build_resources client (frs_resources params) []) (\<lambda>resources.
              seq (call_firewalls_apply_to_resources client fw resources) (\<lambda>actions.
                return_dict
                  [(''success'', Inr (PBool True)), (''actions'', actions_to_list actions)]))))
       (\<lambda>e. ret (error_dict (''Failed to apply firewall to resources: '' @ str_exn e)))"

definition remove_firewall_from_resources ::
  "'s client \<Rightarrow> firewall_resources_params \<Rightarrow> ('s, pyval, unit) stmt" where
  "remove_firewall_from_resources client params =
     try_except
       (seq (call_firewalls_get_by_id client (frs_firewall_id params)) (\<lambda>firewall.
          case firewall of
            None \<Rightarrow> ret (error_dict
              (''Firewall with ID '' @ str_int (frs_firewall_id params) @ '' not found''))
          | Some fw \<Rightarrow>
              seq (build_resources client (frs_resources params) []) (\<lambda>resources.
              seq (call_firewalls_remove_from_resources client fw resources) (\<lambda>actions.
                return_dict
                  [(''success'', Inr (PBool True)), (''actions'', actions_to_list actions)]))))
       (\<lambda>e. ret (error_dict (''Failed to remove firewall from resources: '' @ str_exn e)))"

subsection \<open>Volumes\<close>

definition list_volumes :: "'s client \<Rightarrow> ('s, pyval, unit) stmt" where
  "list_volumes client =
     try_except
       (seq (call_volumes_get_all client) (\<lambda>volumes.
          return_dict [(''volumes'', comprehension volume_to_dict volumes)]))
       (\<lambda>e. ret (error_dict (''Failed to list volumes: '' @ str_exn e)))"

definition get_volume :: "'s client \<Rightarrow> int \<Rightarrow> ('s, pyval, unit) stmt" where
  "get_volume client vid =
     try_except
       (seq (call_volumes_get_by_id client vid) (\<lambda>volume.
          case volume of
            None \<Rightarrow> ret (error_dict (''Volume with ID '' @ str_int vid @ '' not found''))
          | Some vol \<Rightarrow>
              return_dict [(''volume'', volume_to_dict vol)]))
       (\<lambda>e. ret (error_dict (''Failed to get volume: '' @ str_exn e)))"

text \<open>
  The first statements of \<^verbatim>\<open>create_volume\<close>: the location (lines 1220 to 1224) and
  the server (lines 1227 to 1231), each looked up only when its parameter is truthy.
\<close>

definition lookup_volume_location ::
  "'s client \<Rightarrow> create_volume_params \<Rightarrow> ('s, pyval, location option) stmt" where
  "lookup_volume_location client params =
     (if truthy_str (cvp_location params)
      then seq (call_locations_get_by_name client (cvp_location params)) (\<lambda>location.
             case location of
               None \<Rightarrow> ret (error_dict
                 (''Location '' @ sq @ str_opt (cvp_location params) @ sq @ '' not found''))
             | Some loc \<Rightarrow> continue (Some loc))
      else continue None)"

definition lookup_volume_server ::
  "'s client \<Rightarrow> create_volume_params \<Rightarrow> ('s, pyval, server option) stmt" where
  "lookup_volume_server client params =
     (if truthy_int (cvp_server params)
      then seq (expr (attr (cvp_server params) id)) (\<lambda>sid.
           seq (call_servers_get_by_id client sid) (\<lambda>server.
             case server of
               None \<Rightarrow> ret (error_dict (''Server with ID '' @ str_int sid @ '' not found''))
             | Some srv \<Rightarrow> continue (Some srv)))
      else continue None)"

definition create_volume :: "'s client \<Rightarrow> create_volume_params \<Rightarrow> ('s, pyval, unit) stmt" where
  "create_volume client params =
     try_except
       (seq (lookup_volume_location client params) (\<lambda>location.
        seq (lookup_volume_server client params) (\<lambda>server.
        seq (call_volumes_create client (cvp_name params) (cvp_size params) location server
               (cvp_automount params) (cvp_format params) (cvp_labels params))
          (\<lambda>response.
             return_dict
               [(''volume'', volume_to_dict (response_volume response)),
                (''action'', action_to_dict (response_volume_action response)),
                (''next_actions'', actions_to_list (response_next_actions response))]))))
       (\<lambda>e. ret (error_dict (''Failed to create volume: '' @ str_exn e)))"

definition delete_volume :: "'s client \<Rightarrow> int \<Rightarrow> ('s, pyval, unit) stmt" where
  "delete_volume client vid =
     try_except
       (seq (call_volumes_get_by_id client vid) (\<lambda>volume.
          case volume of
            None \<Rightarrow> ret (error_dict (''Volume with ID '' @ str_int vid @ '' not found''))
          | Some vol \<Rightarrow>
              seq (call_volumes_delete client vol) (\<lambda>success.
                return_dict [(''success'', Inr success)])))
       (\<lambda>e. ret (error_dict (''Failed to delete volume: '' @ str_exn e)))"

definition attach_volume :: "'s client \<Rightarrow> attach_volume_params \<Rightarrow> ('s, pyval, unit) stmt" where
  "attach_volume client params =
     try_except
       (seq (call_volumes_get_by_id client (avp_volume_id params)) (\<lambda>volume.
          case volume of
            None \<Rightarrow> ret (error_dict
              (''Volume with ID '' @ str_int (avp_volume_id params) @ '' not found''))
          | Some vol \<Rightarrow>
              seq (call_servers_get_by_id client (avp_server_id params)) (\<lambda>server.
                case server of
                  None \<Rightarrow> ret (error_dict
                    (''Server with ID '' @ str_int (avp_server_id params) @ '' not found''))
                | Some srv \<Rightarrow>
                    seq (call_volumes_attach client vol srv (avp_automount params)) (\<lambda>action.
                      return_dict
                        [(''success'', Inr (PBool True)),
                         (''action'', action_to_dict action)]))))
       (\<lambda>e. ret (error_dict (''Failed to attach volume: '' @ str_exn e)))"

definition detach_volume :: "'s client \<Rightarrow> int \<Rightarrow> ('s, pyval, unit) stmt" where
  "detach_volume client vid =
     try_except
       (seq (call_volumes_get_by_id client vid) (\<lambda>volume.
          case volume of
            None \<Rightarrow> ret (error_dict (''Volume with ID '' @ str_int vid @ '' not found''))
          | Some vol \<Rightarrow>
              if \<not> truthy (volume_server vol) then
                ret (error_dict
                  (''Volume with ID '' @ str_int vid @ '' is not attached to any server''))
              else
                seq (call_volumes_detach client vol) (\<lambda>action.
                  return_dict
                    [(''success'', Inr (PBool True)), (''action'', action_to_dict action)])))
       (\<lambda>e. ret (error_dict (''Failed to detach volume: '' @ str_exn e)))"

definition resize_volume :: "'s client \<Rightarrow> resize_volume_params \<Rightarrow> ('s, pyval, unit) stmt" where
  "resize_volume client params =
     try_except
       (seq (call_volumes_get_by_id client (rvp_volume_id params)) (\<lambda>volume.
          case volume of
            None \<Rightarrow> ret (error_dict
              (''Volume with ID '' @ str_int (rvp_volume_id params) @ '' not found''))
          | Some vol \<Rightarrow>
              if rvp_size params \<le> volume_size vol then
                ret (error_dict
                  (''New size ('' @ str_int (rvp_size params)
                   @ '' GB) must be greater than current size (''
                   @ str_int (volume_size vol) @ '' GB)''))
              else
                seq (call_volumes_resize client vol (rvp_size params)) (\<lambda>action.
                  return_dict
                    [(''success'', Inr (PBool True)), (''action'', action_to_dict action)])))
       (\<lambda>e. ret (error_dict (''Failed to resize volume: '' @ str_exn e)))"

subsection \<open>SSH keys\<close>

definition list_ssh_keys :: "'s client \<Rightarrow> ('s, pyval, unit) stmt" where
  "list_ssh_keys client =
     try_except
       (seq (call_ssh_keys_get_all client) (\<lambda>keys.
          return_dict [(''ssh_keys'', comprehension ssh_key_to_dict keys)]))
       (\<lambda>e. ret (error_dict (''Failed to list SSH keys: '' @ str_exn e)))"

definition get_ssh_key :: "'s client \<Rightarrow> int \<Rightarrow> ('s, pyval, unit) stmt" where
  "get_ssh_key client kid =
     try_except
       (seq (call_ssh_keys_get_by_id client kid) (\<lambda>ssh_key.
          case ssh_key of
            None \<Rightarrow> ret (error_dict (''SSH key with ID '' @ str_int kid @ '' not found''))
          | Some key \<Rightarrow>
              return_dict [(''ssh_key'', ssh_key_to_dict key)]))
       (\<lambda>e. ret (error_dict (''Failed to get SSH key: '' @ str_exn e)))"

definition create_ssh_key :: "'s client \<Rightarrow> create_ssh_key_params \<Rightarrow> ('s, pyval, unit) stmt" where
  "create_ssh_key client params =
     try_except
       (seq (call_ssh_keys_create client (ckp_name params) (ckp_public_key params)
               (ckp_labels params)) (\<lambda>ssh_key.
          return_dict [(''ssh_key'', ssh_key_to_dict ssh_key)]))
       (\<lambda>e. ret (error_dict (''Failed to create SSH key: '' @ str_exn e)))"

definition update_ssh_key :: "'s client \<Rightarrow> update_ssh_key_params \<Rightarrow> ('s, pyval, unit) stmt" where
  "update_ssh_key client params =
     try_except
       (seq (call_ssh_keys_get_by_id client (ukp_ssh_key_id params)) (\<lambda>ssh_key.
          case ssh_key of
            None \<Rightarrow> ret (error_dict
              (''SSH key with ID '' @ str_int (ukp_ssh_key_id params) @ '' not found''))
          | Some key \<Rightarrow>
              seq (call_ssh_keys_update client key (ukp_name params) (ukp_labels params))
                (\<lambda>updated_ssh_key.
                   return_dict [(''ssh_key'', ssh_key_to_dict updated_ssh_key)])))
       (\<lambda>e. ret (error_dict (''Failed to update SSH key: '' @ str_exn e)))"

definition delete_ssh_key :: "'s client \<Rightarrow> int \<Rightarrow> ('s, pyval, unit) stmt" where
  "delete_ssh_key client kid =
     try_except
       (seq (call_ssh_keys_get_by_id client kid) (\<lambda>ssh_key.
          case ssh_key of
            None \<Rightarrow> ret (error_dict (''SSH key with ID '' @ str_int kid @ '' not found''))
          | Some key \<Rightarrow>
              seq (call_ssh_keys_delete client key) (\<lambda>success.
                return_dict [(''success'', Inr success)])))
       (\<lambda>e. ret (error_dict (''Failed to delete SSH key: '' @ str_exn e)))"

subsection \<open>The registered tools\<close>

text \<open>
  \<^verbatim>\<open>@mcp.tool()\<close> registers each handler under its name. A request names a tool and
  carries a value of its parameter class; the validation of the parameters happens
  before the handler is entered.
\<close>

datatype request =
    ListServers
  | GetServer int
  | CreateServer create_server_params
  | DeleteServer int
  | ListImages
  | ListServerTypes
  | ListLocations
  | PowerOn int
  | PowerOff int
  | Reboot int
  | ListFirewalls
  | GetFirewall int
  | CreateFirewall create_firewall_params
  | UpdateFirewall update_firewall_params
  | DeleteFirewall int
  | SetFirewallRules set_firewall_rules_params
  | ApplyFirewallToResources firewall_resources_params
  | RemoveFirewallFromResources firewall_resources_params
  | ListVolumes
  | GetVolume int
  | CreateVolume create_volume_params
  | DeleteVolume int
  | AttachVolume attach_volume_params
  | DetachVolume int
  | ResizeVolume resize_volume_params
  | ListSshKeys
  | GetSshKey int
  | CreateSshKey create_ssh_key_params
  | UpdateSshKey update_ssh_key_params
  | DeleteSshKey int

fun call_tool :: "(pyval \<Rightarrow> string) \<Rightarrow> 's client \<Rightarrow> request \<Rightarrow> ('s, pyval, unit) stmt" where
  "call_tool repr client ListServers = list_servers client"
| "call_tool repr client (GetServer i) = get_server client i"
| "call_tool repr client (CreateServer p) = create_server repr client p"
| "call_tool repr client (DeleteServer i) = delete_server client i"
| "call_tool repr client ListImages = list_images client"
| "call_tool repr client ListServerTypes = list_server_types client"
| "call_tool repr client ListLocations = list_locations client"
| "call_tool repr client (PowerOn i) = power_on client i"
| "call_tool repr client (PowerOff i) = power_off client i"
| "call_tool repr client (Reboot i) = reboot client i"
| "call_tool repr client ListFirewalls = list_firewalls client"
| "call_tool repr client (GetFirewall i) = get_firewall client i"
| "call_tool repr client (CreateFirewall p) = create_firewall client p"
| "call_tool repr client (UpdateFirewall p) = update_firewall client p"
| "call_tool repr client (DeleteFirewall i) = delete_firewall client i"
| "call_tool repr client (SetFirewallRules p) = set_firewall_rules client p"
| "call_tool repr client (ApplyFirewallToResources p) = apply_firewall_to_resources client p"
| "call_tool repr client (RemoveFirewallFromResources p) =
     remove_firewall_from_resources client p"
| "call_tool repr client ListVolumes = list_volumes client"
| "call_tool repr client (GetVolume i) = get_volume client i"
| "call_tool repr client (CreateVolume p) = create_volume client p"
| "call_tool repr client (DeleteVolume i) = delete_volume client i"
| "call_tool repr client (AttachVolume p) = attach_volume client p"
| "call_tool repr client (DetachVolume i) = detach_volume client i"
| "call_tool repr client (ResizeVolume p) = resize_volume client p"
| "call_tool repr client ListSshKeys = list_ssh_keys client"
| "call_tool repr client (GetSshKey i) = get_ssh_key client i"
| "call_tool repr client (CreateSshKey p) = create_ssh_key client p"
| "call_tool repr client (UpdateSshKey p) = update_ssh_key client p"
| "call_tool repr client (DeleteSshKey i) = delete_ssh_key client i"

text \<open>The two shapes of a result: \<^verbatim>\<open>{"error": <message>}\<close>, or a dictionary without
  the key \<^verbatim>\<open>error\<close>.\<close>

fun is_error_envelope :: "pyval \<Rightarrow> bool" where
  "is_error_envelope (PDict [(k, PStr msg)]) = (k = ''error'')"
| "is_error_envelope _ = False"

fun is_success_envelope :: "pyval \<Rightarrow> bool" where
  "is_success_envelope (PDict kvs) = (''error'' \<notin> set (map fst kvs))"
| "is_success_envelope _ = False"

section \<open>Properties of statements\<close>

text \<open>
  The vocabulary of the theorems. A result is an envelope when it has one of the two
  shapes. A statement passes \<open>P\<close> when every value it returns satisfies \<open>P\<close>; it ends
  with \<open>P\<close> when, besides, it never falls through.
\<close>

definition envelope :: "pyval \<Rightarrow> bool" where
  "envelope d = (is_error_envelope d \<or> is_success_envelope d)"

definition passes :: "('r \<Rightarrow> bool) \<Rightarrow> ('s, 'r, 'a) stmt \<Rightarrow> bool" where
  "passes P m = (\<forall>w d w1. m w = (Return d, w1) \<longrightarrow> P d)"

definition ends_with :: "('r \<Rightarrow> bool) \<Rightarrow> ('s, 'r, 'a) stmt \<Rightarrow> bool" where
  "ends_with P m = (passes P m \<and> (\<forall>w a w1. m w \<noteq> (Continue a, w1)))"


text \<open>
  Two properties of the calls that a statement adds to the log: all of them satisfy
  \<open>A\<close>; all of them but the last satisfy \<open>A\<close>.
\<close>

definition quiet :: "(call \<Rightarrow> bool) \<Rightarrow> ('s, 'r, 'a) stmt \<Rightarrow> bool" where
  "quiet A m = (\<forall>w. \<exists>cs. snd (snd (m w)) = snd w @ cs \<and> list_all A cs)"

definition final :: "(call \<Rightarrow> bool) \<Rightarrow> ('s, 'r, 'a) stmt \<Rightarrow> bool" where
  "final A m = (\<forall>w. \<exists>cs. snd (snd (m w)) = snd w @ cs \<and> list_all A (butlast cs))"


section \<open>Sample objects and a sample provider\<close>

text \<open>
  Concrete inputs on which the theorems are instantiated: objects with every optional
  part absent, and a provider that knows server 42, firewall 5, volumes 7 and 8 and
  SSH key 3, and nothing else.
\<close>

definition bare_server :: server where
  "bare_server =
     \<lparr>server_id = 42, server_name = PStr ''web'', server_status = PStr ''running'',
      server_created = None, server_server_type = None, server_image = None,
      server_datacenter = None, server_public_net = None,
      server_included_traffic = PNone, server_outgoing_traffic = PNone,
      server_ingoing_traffic = PNone, server_backup_window = PNone,
      server_rescue_enabled = PBool False, server_locked = PBool False,
      server_protection = None, server_labels = PDict [], server_volumes = None\<rparr>"

definition placed_server :: server where
  "placed_server =
     bare_server\<lparr>server_datacenter :=
       Some \<lparr>datacenter_name = PStr ''nbg1-dc3'', datacenter_location = None\<rparr>\<rparr>"

definition bare_volume :: volume where
  "bare_volume =
     \<lparr>volume_id = 7, volume_name = PStr ''data'', volume_size = 10, volume_location = None,
      volume_server = None, volume_linux_device = PNone, volume_protection = None,
      volume_labels = PDict [], volume_format = PNone, volume_created = None,
      volume_status = PStr ''available''\<rparr>"

definition attached_volume :: volume where
  "attached_volume = bare_volume\<lparr>volume_id := 8, volume_server := Some bare_server\<rparr>"

definition bare_ssh_key :: ssh_key where
  "bare_ssh_key =
     \<lparr>ssh_key_id = 3, ssh_key_name = PStr ''key'', ssh_key_fingerprint = PStr ''aa:bb'',
      ssh_key_public_key = PStr ''ssh-rsa AAAA'', ssh_key_labels = PDict [],
      ssh_key_created = None\<rparr>"

definition bare_firewall :: firewall where
  "bare_firewall =
     \<lparr>firewall_id = 5, firewall_name = PStr ''fw'', firewall_rules = None,
      firewall_applied_to = None, firewall_labels = PDict [], firewall_created = None\<rparr>"

definition empty_description_rule :: firewall_rule where
  "empty_description_rule =
     \<lparr>rule_direction = ''in'', rule_protocol = ''tcp'', rule_source_ips = [''0.0.0.0/0''],
      rule_port = Some ''80'', rule_destination_ips = Some [], rule_description = Some []\<rparr>"

definition sample_action :: action where
  "sample_action =
     \<lparr>action_id = PInt 1, action_status = PStr ''running'',
      action_command = PStr ''start_server'', action_progress = PInt 0,
      action_error = PNone, action_started = Some (Datetime ''2024-01-01T00:00:00+00:00''),
      action_finished = None\<rparr>"


definition sample_server_type :: server_type where
  "sample_server_type =
     \<lparr>server_type_id = PInt 1, server_type_name = PStr ''cx11'',
      server_type_description = PStr ''CX11'', server_type_cores = PInt 1,
      server_type_memory = PInt 2, server_type_disk = PInt 20,
      server_type_storage_type = PStr ''local'', server_type_cpu_type = PStr ''shared'',
      server_type_prices = None\<rparr>"

definition sample_image :: image where
  "sample_image =
     \<lparr>image_id = PInt 67, image_name = PStr ''ubuntu-22.04'',
      image_description = PStr ''Ubuntu 22.04'', image_type = PStr ''system'',
      image_status = PStr ''available'', image_os_flavor = PStr ''ubuntu'',
      image_os_version = PStr ''22.04'', image_architecture = PStr ''x86'',
      image_disk_size = PInt 5, image_created = None\<rparr>"

definition sample_location :: location where
  "sample_location =
     \<lparr>location_id = PInt 2, location_name = PStr ''nbg1'',
      location_description = PStr ''Nuremberg DC Park 1'', location_country = PStr ''DE'',
      location_city = PStr ''Nuremberg'', location_latitude = PNone,
      location_longitude = PNone, location_network_zone = PStr ''eu-central''\<rparr>"

definition sample_client :: "unit client" where
  "sample_client =
     \<lparr>client_servers =
        \<lparr>servers_get_all = (\<lambda>s. (Inr [bare_server], s)),
         servers_get_by_id = (\<lambda>i s. (Inr (if i = 42 then Some bare_server else None), s)),
         servers_create = (\<lambda>name st img loc keys s.
           (Inr \<lparr>response_server = bare_server, response_action = Some sample_action,
                 response_root_password = (if keys = [] then PStr ''hunter2'' else PNone)\<rparr>,
            s)),
         servers_delete = (\<lambda>srv s. (Inr (Some sample_action), s)),
         servers_power_on = (\<lambda>srv s. (Inr (Some sample_action), s)),
         servers_power_off = (\<lambda>srv s. (Inr (Some sample_action), s)),
         servers_reboot = (\<lambda>srv s. (Inr (Some sample_action), s))\<rparr>,
      client_catalog =
        \<lparr>server_types_get_all = (\<lambda>s. (Inr [sample_server_type], s)),
         server_types_get_by_name =
           (\<lambda>n s. (Inr (if n = ''cx11'' then Some sample_server_type else None), s)),
         images_get_all = (\<lambda>s. (Inr [sample_image], s)),
         images_get_by_name =
           (\<lambda>n s. (Inr (if n = ''ubuntu-22.04'' then Some sample_image else None), s)),
         locations_get_all = (\<lambda>s. (Inr [sample_location], s)),
         locations_get_by_name =
           (\<lambda>n s. (Inr (if n = Some ''nbg1'' then Some sample_location else None), s))\<rparr>,
      client_ssh_keys =
        \<lparr>ssh_keys_get_all = (\<lambda>s. (Inr [bare_ssh_key], s)),
         ssh_keys_get_by_id = (\<lambda>i s. (Inr (if i = 3 then Some bare_ssh_key else None), s)),
         ssh_keys_get_by_name = (\<lambda>n s. (Inr None, s)),
         ssh_keys_create = (\<lambda>name public_key labels s. (Inr bare_ssh_key, s)),
         ssh_keys_update = (\<lambda>key name labels s. (Inr key, s)),
         ssh_keys_delete = (\<lambda>key s. (Inr (PBool True), s))\<rparr>,
      client_firewalls =
        \<lparr>firewalls_get_all = (\<lambda>s. (Inr [bare_firewall], s)),
         firewalls_get_by_id = (\<lambda>i s. (Inr (if i = 5 then Some bare_firewall else None), s)),
         firewalls_create = (\<lambda>name rules labels resources s.
           (Inr \<lparr>response_firewall = bare_firewall, response_actions = None\<rparr>, s)),
         firewalls_update = (\<lambda>fw name labels s. (Inr fw, s)),
         firewalls_delete = (\<lambda>fw s. (Inr (PBool True), s)),
         firewalls_set_rules = (\<lambda>fw rules s. (Inr (Some [sample_action]), s)),
         firewalls_apply_to_resources = (\<lambda>fw resources s. (Inr (Some [sample_action]), s)),
         firewalls_remove_from_resources =
           (\<lambda>fw resources s. (Inr (Some [sample_action]), s))\<rparr>,
      client_volumes =
        \<lparr>volumes_get_all = (\<lambda>s. (Inr [bare_volume, attached_volume], s)),
         volumes_get_by_id = (\<lambda>i s.
           (Inr (if i = 7 then Some bare_volume
                 else if i = 8 then Some attached_volume else None), s)),
         volumes_create = (\<lambda>name sz loc srv automount fmt labels s.
           (Inr \<lparr>response_volume = bare_volume, response_volume_action = Some sample_action,
                 response_next_actions = None\<rparr>, s)),
         volumes_delete = (\<lambda>vol s. (Inr (PBool True), s)),
         volumes_attach = (\<lambda>vol srv automount s. (Inr (Some sample_action), s)),
         volumes_detach = (\<lambda>vol s. (Inr (Some sample_action), s)),
         volumes_resize = (\<lambda>vol sz s. (Inr (Some sample_action), s))\<rparr>\<rparr>"

text \<open>Requests and a list printer for the sample provider.\<close>

definition sample_repr :: "pyval \<Rightarrow> string" where
  "sample_repr v = ''[...]''"

definition create_with_unknown_key :: create_server_params where
  "create_with_unknown_key =
     \<lparr>csp_name = ''web'', csp_server_type = ''cx11'', csp_image = ''ubuntu-22.04'',
      csp_location = Some ''nbg1'', csp_ssh_keys = Some [KeyId 999]\<rparr>"

definition create_without_keys :: create_server_params where
  "create_without_keys = create_with_unknown_key\<lparr>csp_ssh_keys := None\<rparr>"










text \<open>Sample configurations for the credential resolver.\<close>

definition good_config :: config where
  "good_config =
     \<lparr>config_active_context = Some ''prod'',
      config_contexts = Some
        [\<lparr>context_name = Some ''dev'', context_token = Some ''devtoken''\<rparr>,
         \<lparr>context_name = Some ''prod'', context_token = Some ''s3cr3t''\<rparr>]\<rparr>"

definition env_good :: environment where
  "env_good = \<lparr>config_path_exists = True, toml_load = Inr good_config\<rparr>"

definition env_missing :: environment where
  "env_missing = \<lparr>config_path_exists = False, toml_load = Inr good_config\<rparr>"

definition env_malformed :: environment where
  "env_malformed =
     \<lparr>config_path_exists = True,
      toml_load = Inl (Exn TomlDecodeError ''Invalid date or number (line 1 column 1 char 0)'')\<rparr>"

definition env_no_active :: environment where
  "env_no_active =
     \<lparr>config_path_exists = True,
      toml_load = Inr (good_config\<lparr>config_active_context := None\<rparr>)\<rparr>"

definition env_unknown_context :: environment where
  "env_unknown_context =
     \<lparr>config_path_exists = True,
      toml_load = Inr (good_config\<lparr>config_active_context := Some ''staging''\<rparr>)\<rparr>"

definition env_no_token :: environment where
  "env_no_token =
     \<lparr>config_path_exists = True,
      toml_load = Inr (good_config\<lparr>config_contexts := Some
        [\<lparr>context_name = Some ''prod'', context_token = Some []\<rparr>]\<rparr>)\<rparr>"

section \<open>Basic facts about expressions and converters\<close>

lemmas provider_calls =
  call_servers_get_all_def call_servers_get_by_id_def call_servers_create_def
  call_servers_delete_def call_servers_power_on_def call_servers_power_off_def
  call_servers_reboot_def call_server_types_get_all_def call_server_types_get_by_name_def
  call_images_get_all_def call_images_get_by_name_def call_locations_get_all_def
  call_locations_get_by_name_def call_ssh_keys_get_all_def call_ssh_keys_get_by_id_def
  call_ssh_keys_get_by_name_def call_ssh_keys_create_def call_ssh_keys_update_def
  call_ssh_keys_delete_def call_firewalls_get_all_def call_firewalls_get_by_id_def
  call_firewalls_create_def call_firewalls_update_def call_firewalls_delete_def
  call_firewalls_set_rules_def call_firewalls_apply_to_resources_def
  call_firewalls_remove_from_resources_def call_volumes_get_all_def
  call_volumes_get_by_id_def call_volumes_create_def call_volumes_delete_def
  call_volumes_attach_def call_volumes_detach_def call_volumes_resize_def

lemma ebind_Inr [simp]: "ebind (Inr x) f = f x"
  by (simp add: ebind_def)

lemma ebind_Inl [simp]: "ebind (Inl e) f = Inl e"
  by (simp add: ebind_def)

lemmas expr_defs = py_if_def py_and_def attr_def truthy_def truthy_seq_def

lemma eval_items_ok:
  "list_all (\<lambda>kv. \<not> isl (snd kv)) kvs \<Longrightarrow>
     eval_items kvs = Inr (map (\<lambda>kv. (fst kv, projr (snd kv))) kvs)"
proof (induction kvs)
  case Nil
  then show ?case by simp
next
  case (Cons kv kvs)
  obtain k v where kv: "kv = (k, v)" by (cases kv)
  from Cons.prems kv obtain x where v: "v = Inr x" by (cases v) auto
  from Cons show ?case by (simp add: kv v)
qed

lemma py_dict_ok:
  "list_all (\<lambda>kv. \<not> isl (snd kv)) kvs \<Longrightarrow>
     py_dict kvs = Inr (PDict (map (\<lambda>kv. (fst kv, projr (snd kv))) kvs))"
  by (simp add: py_dict_def eval_items_ok)

lemma eval_list_ok:
  "list_all (\<lambda>v. \<not> isl v) vs \<Longrightarrow> eval_list vs = Inr (map projr vs)"
proof (induction vs)
  case Nil
  then show ?case by simp
next
  case (Cons v vs)
  from Cons.prems obtain x where v: "v = Inr x" by (cases v) auto
  from Cons show ?case by (simp add: v)
qed

lemma guarded_attr_ok [simp]:
  "\<not> isl e \<Longrightarrow> \<not> isl (py_if (Inr (truthy x)) (attr x f) e)"
  by (cases x) (simp_all add: expr_defs)

lemma guarded_seq_attr_ok [simp]:
  "\<not> isl e \<Longrightarrow> \<not> isl (py_if (Inr (truthy_seq x)) (attr x f) e)"
  by (cases x) (simp_all add: expr_defs)

lemma guarded_attr2_ok [simp]:
  "\<not> isl (py_if (py_and (truthy x) (ebind (attr x g) (\<lambda>a. Inr (truthy a))))
             (ebind (attr x g) (\<lambda>a. attr a f)) (Inr v))"
  by (cases x; cases "g (the x)") (simp_all add: expr_defs)

lemma iso_or_none_ok [simp]: "\<not> isl (iso_or_none x)"
  by (simp add: iso_or_none_def)

lemma iso_or_none_None [simp]: "iso_or_none None = Inr PNone"
  by (simp add: iso_or_none_def expr_defs)

lemma iso_or_none_Some [simp]: "iso_or_none (Some t) = Inr (PStr (isoformat t))"
  by (simp add: iso_or_none_def expr_defs)

lemma server_to_dict_ok: "\<not> isl (server_to_dict s)"
  unfolding server_to_dict_def by (simp add: py_dict_ok)


lemma ssh_key_to_dict_ok: "\<not> isl (ssh_key_to_dict s)"
  unfolding ssh_key_to_dict_def by (simp add: py_dict_ok)

lemma server_ref_dict_ok: "truthy s \<Longrightarrow> \<not> isl (server_ref_dict s)"
  by (cases s) (simp_all add: server_ref_dict_def py_dict_ok expr_defs)

lemma applied_resource_to_dict_ok: "\<not> isl (applied_resource_to_dict r)"
  unfolding applied_resource_to_dict_def by (simp add: py_dict_ok server_ref_dict_ok)

lemma resource_to_dict_ok: "\<not> isl (resource_to_dict r)"
proof -
  have a: "truthy_seq (resource_applied_to_resources r) \<Longrightarrow>
    \<not> isl (ebind (attr (resource_applied_to_resources r) id)
       (\<lambda>rs. ebind (eval_list (map applied_resource_to_dict rs)) (\<lambda>ds. Inr (PList ds))))"
    by (cases "resource_applied_to_resources r")
       (simp_all add: expr_defs eval_list_ok list_all_iff applied_resource_to_dict_ok)
  have b: "truthy (resource_label_selector r) \<Longrightarrow>
    \<not> isl (py_dict [(''selector'', attr (resource_label_selector r) PStr)])"
    by (cases "resource_label_selector r") (simp_all add: py_dict_ok expr_defs)
  show ?thesis
    unfolding resource_to_dict_def by (simp add: py_dict_ok server_ref_dict_ok a b)
qed



section \<open>The shape converters are total\<close>

lemma server_to_dict_absent:
  "\<exists>d. server_to_dict s = Inr d
     \<and> (server_created s = None \<longrightarrow> dict_get d ''created'' = Some PNone)
     \<and> (server_server_type s = None \<longrightarrow> dict_get d ''server_type'' = Some PNone)
     \<and> (server_image s = None \<longrightarrow> dict_get d ''image'' = Some PNone)
     \<and> (server_datacenter s = None \<longrightarrow>
          dict_get d ''datacenter'' = Some PNone \<and> dict_get d ''location'' = Some PNone)
     \<and> ((\<exists>dc. server_datacenter s = Some dc \<and> datacenter_location dc = None) \<longrightarrow>
          dict_get d ''location'' = Some PNone)
     \<and> (server_public_net s = None \<longrightarrow>
          dict_get d ''public_net'' = Some (PDict [(''ipv4'', PNone), (''ipv6'', PNone)]))
     \<and> (server_protection s = None \<longrightarrow>
          dict_get d ''protection'' =
            Some (PDict [(''delete'', PBool False), (''rebuild'', PBool False)]))
     \<and> (server_volumes s = None \<longrightarrow> dict_get d ''volumes'' = Some (PList []))"
  unfolding server_to_dict_def
  by (simp add: py_dict_ok) (auto simp add: expr_defs)

lemma volume_to_dict_absent:
  "\<exists>d. volume_to_dict v = Inr d
     \<and> (volume_location v = None \<longrightarrow> dict_get d ''location'' = Some PNone)
     \<and> (volume_server v = None \<longrightarrow> dict_get d ''server'' = Some PNone)
     \<and> (volume_protection v = None \<longrightarrow>
          dict_get d ''protection'' = Some (PDict [(''delete'', PBool False)]))
     \<and> (volume_created v = None \<longrightarrow> dict_get d ''created'' = Some PNone)"
  unfolding volume_to_dict_def
  by (simp add: py_dict_ok) (auto simp add: expr_defs)

lemma ssh_key_to_dict_absent:
  "\<exists>d. ssh_key_to_dict k = Inr d
     \<and> (ssh_key_created k = None \<longrightarrow> dict_get d ''created'' = Some PNone)"
  unfolding ssh_key_to_dict_def
  by (simp add: py_dict_ok)

lemma firewall_applied_to_ok:
  "\<not> isl (py_if (Inr (truthy_seq (firewall_applied_to f)))
           (ebind (attr (firewall_applied_to f) id)
              (\<lambda>rs. ebind (eval_list (map resource_to_dict rs)) (\<lambda>ds. Inr (PList ds))))
           (Inr (PList [])))"
  by (cases "firewall_applied_to f")
     (simp_all add: expr_defs eval_list_ok list_all_iff resource_to_dict_ok)

lemma firewall_to_dict_absent:
  "\<exists>d. firewall_to_dict f = Inr d
     \<and> (firewall_rules f = None \<longrightarrow> dict_get d ''rules'' = Some (PList []))
     \<and> (firewall_applied_to f = None \<longrightarrow> dict_get d ''applied_to'' = Some (PList []))
     \<and> (firewall_created f = None \<longrightarrow> dict_get d ''created'' = Some PNone)"
  unfolding firewall_to_dict_def
  by (simp add: py_dict_ok firewall_applied_to_ok) (auto simp add: expr_defs)

text \<open>
  Claim C7. Each of the four converters returns a record on every input, whatever
  optional parts are absent; no attribute of \<^verbatim>\<open>None\<close> is ever read. An absent
  timestamp, server type, image, datacenter, location, address, volume location or
  attached server gives \<^verbatim>\<open>None\<close> in the record; an absent protection gives
  \<^verbatim>\<open>False\<close> flags, and absent volumes, rules or resources give the empty list. In
  particular a server without datacenter has \<^verbatim>\<open>location: None\<close> and a volume without
  server has \<^verbatim>\<open>server: None\<close>.
\<close>

theorem shape_converters_total:
  "(\<exists>d. server_to_dict s = Inr d
     \<and> (server_created s = None \<longrightarrow> dict_get d ''created'' = Some PNone)
     \<and> (server_server_type s = None \<longrightarrow> dict_get d ''server_type'' = Some PNone)
     \<and> (server_image s = None \<longrightarrow> dict_get d ''image'' = Some PNone)
     \<and> (server_datacenter s = None \<longrightarrow>
          dict_get d ''datacenter'' = Some PNone \<and> dict_get d ''location'' = Some PNone)
     \<and> ((\<exists>dc. server_datacenter s = Some dc \<and> datacenter_location dc = None) \<longrightarrow>
          dict_get d ''location'' = Some PNone)
     \<and> (server_public_net s = None \<longrightarrow>
          dict_get d ''public_net'' = Some (PDict [(''ipv4'', PNone), (''ipv6'', PNone)]))
     \<and> (server_protection s = None \<longrightarrow>
          dict_get d ''protection'' =
            Some (PDict [(''delete'', PBool False), (''rebuild'', PBool False)]))
     \<and> (server_volumes s = None \<longrightarrow> dict_get d ''volumes'' = Some (PList [])))
   \<and> (\<exists>d. volume_to_dict v = Inr d
     \<and> (volume_location v = None \<longrightarrow> dict_get d ''location'' = Some PNone)
     \<and> (volume_server v = None \<longrightarrow> dict_get d ''server'' = Some PNone)
     \<and> (volume_protection v = None \<longrightarrow>
          dict_get d ''protection'' = Some (PDict [(''delete'', PBool False)]))
     \<and> (volume_created v = None \<longrightarrow> dict_get d ''created'' = Some PNone))
   \<and> (\<exists>d. ssh_key_to_dict k = Inr d
     \<and> (ssh_key_created k = None \<longrightarrow> dict_get d ''created'' = Some PNone))
   \<and> (\<exists>d. firewall_to_dict f = Inr d
     \<and> (firewall_rules f = None \<longrightarrow> dict_get d ''rules'' = Some (PList []))
     \<and> (firewall_applied_to f = None \<longrightarrow> dict_get d ''applied_to'' = Some (PList []))
     \<and> (firewall_created f = None \<longrightarrow> dict_get d ''created'' = Some PNone))"
  using server_to_dict_absent [of s] volume_to_dict_absent [of v]
    ssh_key_to_dict_absent [of k] firewall_to_dict_absent [of f]
  by blast

text \<open>
  The theorem at the sample objects, which have every optional part absent, and at a
  server with a datacenter that has no location.
\<close>

theorem shape_converters_total_witness:
  "server_datacenter bare_server = None \<and> server_created bare_server = None
   \<and> server_server_type bare_server = None \<and> server_image bare_server = None
   \<and> server_public_net bare_server = None \<and> server_protection bare_server = None
   \<and> server_volumes bare_server = None
   \<and> (\<exists>d. server_to_dict bare_server = Inr d
        \<and> dict_get d ''location'' = Some PNone \<and> dict_get d ''datacenter'' = Some PNone
        \<and> dict_get d ''created'' = Some PNone \<and> dict_get d ''server_type'' = Some PNone
        \<and> dict_get d ''image'' = Some PNone
        \<and> dict_get d ''public_net'' = Some (PDict [(''ipv4'', PNone), (''ipv6'', PNone)])
        \<and> dict_get d ''protection'' =
            Some (PDict [(''delete'', PBool False), (''rebuild'', PBool False)])
        \<and> dict_get d ''volumes'' = Some (PList []))
   \<and> (\<exists>dc. server_datacenter placed_server = Some dc \<and> datacenter_location dc = None)
   \<and> (\<exists>d. server_to_dict placed_server = Inr d \<and> dict_get d ''location'' = Some PNone)
   \<and> volume_server bare_volume = None \<and> volume_location bare_volume = None
   \<and> volume_protection bare_volume = None \<and> volume_created bare_volume = None
   \<and> (\<exists>d. volume_to_dict bare_volume = Inr d
        \<and> dict_get d ''server'' = Some PNone \<and> dict_get d ''location'' = Some PNone
        \<and> dict_get d ''protection'' = Some (PDict [(''delete'', PBool False)])
        \<and> dict_get d ''created'' = Some PNone)
   \<and> ssh_key_created bare_ssh_key = None
   \<and> (\<exists>d. ssh_key_to_dict bare_ssh_key = Inr d \<and> dict_get d ''created'' = Some PNone)
   \<and> firewall_rules bare_firewall = None \<and> firewall_applied_to bare_firewall = None
   \<and> firewall_created bare_firewall = None
   \<and> (\<exists>d. firewall_to_dict bare_firewall = Inr d
        \<and> dict_get d ''rules'' = Some (PList []) \<and> dict_get d ''applied_to'' = Some (PList [])
        \<and> dict_get d ''created'' = Some PNone)"
proof -
  have s: "server_datacenter bare_server = None" "server_created bare_server = None"
    "server_server_type bare_server = None" "server_image bare_server = None"
    "server_public_net bare_server = None" "server_protection bare_server = None"
    "server_volumes bare_server = None"
    by (simp_all add: bare_server_def)
  have p: "\<exists>dc. server_datacenter placed_server = Some dc \<and> datacenter_location dc = None"
    by (simp add: placed_server_def)
  have v: "volume_server bare_volume = None" "volume_location bare_volume = None"
    "volume_protection bare_volume = None" "volume_created bare_volume = None"
    by (simp_all add: bare_volume_def)
  have k: "ssh_key_created bare_ssh_key = None"
    by (simp add: bare_ssh_key_def)
  have f: "firewall_rules bare_firewall = None" "firewall_applied_to bare_firewall = None"
    "firewall_created bare_firewall = None"
    by (simp_all add: bare_firewall_def)
  show ?thesis
    using shape_converters_total [of bare_server bare_volume bare_ssh_key bare_firewall]
      shape_converters_total [of placed_server bare_volume bare_ssh_key bare_firewall]
      s p v k f
    by simp blast
qed

text \<open>
  Claim C8, as the code has it. The converted firewall lists one record per rule, in
  order. The record of a rule always has \<^verbatim>\<open>direction\<close>, \<^verbatim>\<open>protocol\<close> and
  \<^verbatim>\<open>source_ips\<close>; it has \<^verbatim>\<open>port\<close>, \<^verbatim>\<open>destination_ips\<close> or \<^verbatim>\<open>description\<close>
  exactly when that field is truthy on the rule (set to a non-empty value), with the
  rule's value; no key of the record is ever \<^verbatim>\<open>None\<close>.
\<close>

theorem firewall_rule_records:
  "(\<exists>d. firewall_to_dict fw = Inr d
      \<and> dict_get d ''rules'' =
          Some (PList (map rule_to_dict
            (case firewall_rules fw of None \<Rightarrow> [] | Some rs \<Rightarrow> rs))))
   \<and> dict_get (rule_to_dict r) ''direction'' = Some (PStr (rule_direction r))
   \<and> dict_get (rule_to_dict r) ''protocol'' = Some (PStr (rule_protocol r))
   \<and> dict_get (rule_to_dict r) ''source_ips'' = Some (PList (map PStr (rule_source_ips r)))
   \<and> dict_get (rule_to_dict r) ''port'' =
       (if truthy_str (rule_port r) then Some (opt_str (rule_port r)) else None)
   \<and> dict_get (rule_to_dict r) ''destination_ips'' =
       (if truthy_seq (rule_destination_ips r)
        then Some (opt_str_list (rule_destination_ips r)) else None)
   \<and> dict_get (rule_to_dict r) ''description'' =
       (if truthy_str (rule_description r) then Some (opt_str (rule_description r)) else None)
   \<and> dict_get (rule_to_dict r) key \<noteq> Some PNone"
proof -
  have rules: "\<exists>d. firewall_to_dict fw = Inr d
      \<and> dict_get d ''rules'' =
          Some (PList (map rule_to_dict
            (case firewall_rules fw of None \<Rightarrow> [] | Some rs \<Rightarrow> rs)))"
    unfolding firewall_to_dict_def
    by (simp add: py_dict_ok firewall_applied_to_ok)
       (cases "firewall_rules fw"; simp add: expr_defs)
  have nonnull: "dict_get (rule_to_dict r) key \<noteq> Some PNone"
    by (cases "rule_port r"; cases "rule_destination_ips r"; cases "rule_description r")
       (simp_all add: rule_to_dict_def truthy_str_def truthy_seq_def)
  have fields: "dict_get (rule_to_dict r) ''direction'' = Some (PStr (rule_direction r))"
    "dict_get (rule_to_dict r) ''protocol'' = Some (PStr (rule_protocol r))"
    "dict_get (rule_to_dict r) ''source_ips'' = Some (PList (map PStr (rule_source_ips r)))"
    "dict_get (rule_to_dict r) ''port'' =
       (if truthy_str (rule_port r) then Some (opt_str (rule_port r)) else None)"
    "dict_get (rule_to_dict r) ''destination_ips'' =
       (if truthy_seq (rule_destination_ips r)
        then Some (opt_str_list (rule_destination_ips r)) else None)"
    "dict_get (rule_to_dict r) ''description'' =
       (if truthy_str (rule_description r) then Some (opt_str (rule_description r)) else None)"
    by (simp_all add: rule_to_dict_def)
  from rules nonnull fields show ?thesis by blast
qed

text \<open>
  Claim C8 as stated fails where a field is set to an empty value: a rule whose
  description is the empty string and whose destination list is empty is converted
  without these two keys.
\<close>

theorem firewall_rule_set_but_omitted:
  "rule_description empty_description_rule = Some []
   \<and> rule_destination_ips empty_description_rule = Some []
   \<and> dict_get (rule_to_dict empty_description_rule) ''description'' = None
   \<and> dict_get (rule_to_dict empty_description_rule) ''destination_ips'' = None
   \<and> dict_keys (rule_to_dict empty_description_rule) =
       [''direction'', ''protocol'', ''source_ips'', ''port'']"
  by (simp add: empty_description_rule_def rule_to_dict_def truthy_str_def truthy_seq_def)


section \<open>The credential resolver fails at startup\<close>

lemma find_token_Inr:
  "find_token a cs = Inr tok \<longleftrightarrow>
     (\<exists>c. find (\<lambda>c. context_name c = Some a) cs = Some c \<and> context_token c = Some tok \<and> tok \<noteq> [])"
  by (induction cs) (auto split: option.splits)

lemma authenticate_body_Inr:
  "authenticate_body env = Inr tok \<longleftrightarrow>
     (\<exists>cfg a c. toml_load env = Inr cfg \<and> config_active_context cfg = Some a \<and> a \<noteq> []
        \<and> find (\<lambda>c. context_name c = Some a)
             (case config_contexts cfg of None \<Rightarrow> [] | Some cs \<Rightarrow> cs) = Some c
        \<and> context_token c = Some tok \<and> tok \<noteq> [])"
  by (cases "toml_load env")
     (auto simp: authenticate_body_def find_token_Inr split: option.splits)

lemma authenticate_Inr:
  "authenticate env = Inr tok \<longleftrightarrow>
     (config_path_exists env \<and>
      (\<exists>cfg a c. toml_load env = Inr cfg \<and> config_active_context cfg = Some a \<and> a \<noteq> []
        \<and> find (\<lambda>c. context_name c = Some a)
             (case config_contexts cfg of None \<Rightarrow> [] | Some cs \<Rightarrow> cs) = Some c
        \<and> context_token c = Some tok \<and> tok \<noteq> []))"
proof (cases "authenticate_body env")
  case (Inl e)
  then have "authenticate_body env \<noteq> Inr tok" by simp
  with Inl show ?thesis
    using authenticate_body_Inr [of env tok]
    by (auto simp: authenticate_def authenticate_except_def)
next
  case (Inr t)
  then show ?thesis
    using authenticate_body_Inr [of env tok]
    by (auto simp: authenticate_def)
qed

lemma not_Inr_raises: "(\<forall>tok. m \<noteq> Inr tok) \<Longrightarrow> \<exists>e. m = Inl e"
  by (cases m) auto

lemma module_client_Inl: "authenticate env = Inl e \<Longrightarrow> module_client env = Inl e"
  by (simp add: module_client_def)

text \<open>
  Claim C9. \<^verbatim>\<open>authenticate\<close> raises, and with it the construction of the module's
  client, when the file is absent, when \<^verbatim>\<open>toml.load\<close> raises, when the active
  context name is missing or empty, when no context of the list has that name, and when
  the first context of that name has no token or an empty one. It returns a token only
  when none of these holds, and the token is that context's. The handlers use the
  client constructed at import and never call \<^verbatim>\<open>authenticate\<close>.
\<close>

theorem credential_failures_are_fatal:
  "(\<not> config_path_exists env \<longrightarrow>
      (\<exists>e. authenticate env = Inl e \<and> module_client env = Inl e))
   \<and> ((\<exists>x. toml_load env = Inl x) \<longrightarrow>
      (\<exists>e. authenticate env = Inl e \<and> module_client env = Inl e))
   \<and> (toml_load env = Inr cfg \<and> \<not> truthy_str (config_active_context cfg) \<longrightarrow>
      (\<exists>e. authenticate env = Inl e \<and> module_client env = Inl e))
   \<and> (toml_load env = Inr cfg \<and> config_active_context cfg = Some a
        \<and> find (\<lambda>c. context_name c = Some a)
             (case config_contexts cfg of None \<Rightarrow> [] | Some cs \<Rightarrow> cs) = None \<longrightarrow>
      (\<exists>e. authenticate env = Inl e \<and> module_client env = Inl e))
   \<and> (toml_load env = Inr cfg \<and> config_active_context cfg = Some a
        \<and> find (\<lambda>c. context_name c = Some a)
             (case config_contexts cfg of None \<Rightarrow> [] | Some cs \<Rightarrow> cs) = Some c
        \<and> \<not> truthy_str (context_token c) \<longrightarrow>
      (\<exists>e. authenticate env = Inl e \<and> module_client env = Inl e))
   \<and> (authenticate env = Inr tok \<longrightarrow>
        module_client env = Inr (Client tok)
        \<and> config_path_exists env
        \<and> (\<exists>cfg a c. toml_load env = Inr cfg \<and> config_active_context cfg = Some a
             \<and> truthy_str (config_active_context cfg)
             \<and> find (\<lambda>c. context_name c = Some a)
                  (case config_contexts cfg of None \<Rightarrow> [] | Some cs \<Rightarrow> cs) = Some c
             \<and> context_token c = Some tok \<and> truthy_str (context_token c)))"
proof -
  have fatal: "(\<forall>tok. authenticate env \<noteq> Inr tok) \<Longrightarrow>
      \<exists>e. authenticate env = Inl e \<and> module_client env = Inl e"
    using not_Inr_raises [of "authenticate env"] module_client_Inl [of env] by blast
  have c1: "\<not> config_path_exists env \<Longrightarrow> \<forall>tok. authenticate env \<noteq> Inr tok"
    by (simp add: authenticate_Inr)
  have c2: "\<exists>x. toml_load env = Inl x \<Longrightarrow> \<forall>tok. authenticate env \<noteq> Inr tok"
    by (auto simp: authenticate_Inr)
  have c3: "toml_load env = Inr cfg \<and> \<not> truthy_str (config_active_context cfg) \<Longrightarrow>
      \<forall>tok. authenticate env \<noteq> Inr tok"
    by (auto simp: authenticate_Inr truthy_str_def)
  have c4: "toml_load env = Inr cfg \<and> config_active_context cfg = Some a
        \<and> find (\<lambda>c. context_name c = Some a)
             (case config_contexts cfg of None \<Rightarrow> [] | Some cs \<Rightarrow> cs) = None \<Longrightarrow>
      \<forall>tok. authenticate env \<noteq> Inr tok"
    by (auto simp: authenticate_Inr)
  have c5: "toml_load env = Inr cfg \<and> config_active_context cfg = Some a
        \<and> find (\<lambda>c. context_name c = Some a)
             (case config_contexts cfg of None \<Rightarrow> [] | Some cs \<Rightarrow> cs) = Some c
        \<and> \<not> truthy_str (context_token c) \<Longrightarrow>
      \<forall>tok. authenticate env \<noteq> Inr tok"
    by (auto simp: authenticate_Inr truthy_str_def)
  have c6: "authenticate env = Inr tok \<Longrightarrow>
        module_client env = Inr (Client tok)
        \<and> config_path_exists env
        \<and> (\<exists>cfg a c. toml_load env = Inr cfg \<and> config_active_context cfg = Some a
             \<and> truthy_str (config_active_context cfg)
             \<and> find (\<lambda>c. context_name c = Some a)
                  (case config_contexts cfg of None \<Rightarrow> [] | Some cs \<Rightarrow> cs) = Some c
             \<and> context_token c = Some tok \<and> truthy_str (context_token c))"
    using authenticate_Inr [of env tok]
    by (auto simp: module_client_def truthy_str_def)
  from fatal c1 c2 c3 c4 c5 c6 show ?thesis by blast
qed


text \<open>
  The theorem at six sample environments: one for each way of failing, and one that
  resolves the token of the active context.
\<close>

theorem credential_failures_are_fatal_witness:
  "\<not> config_path_exists env_missing
   \<and> (\<exists>e. authenticate env_missing = Inl e \<and> module_client env_missing = Inl e)
   \<and> (\<exists>x. toml_load env_malformed = Inl x)
   \<and> (\<exists>e. authenticate env_malformed = Inl e \<and> module_client env_malformed = Inl e)
   \<and> \<not> truthy_str (config_active_context (good_config\<lparr>config_active_context := None\<rparr>))
   \<and> (\<exists>e. authenticate env_no_active = Inl e \<and> module_client env_no_active = Inl e)
   \<and> find (\<lambda>c. context_name c = Some ''staging'')
        (case config_contexts good_config of None \<Rightarrow> [] | Some cs \<Rightarrow> cs) = None
   \<and> (\<exists>e. authenticate env_unknown_context = Inl e
         \<and> module_client env_unknown_context = Inl e)
   \<and> \<not> truthy_str (context_token \<lparr>context_name = Some ''prod'', context_token = Some []\<rparr>)
   \<and> (\<exists>e. authenticate env_no_token = Inl e \<and> module_client env_no_token = Inl e)
   \<and> authenticate env_good = Inr ''s3cr3t''
   \<and> module_client env_good = Inr (Client ''s3cr3t'')"
proof -
  have g: "authenticate env_good = Inr ''s3cr3t''"
    by (simp add: authenticate_def authenticate_body_def env_good_def good_config_def)
  have h1: "\<not> config_path_exists env_missing"
    by (simp add: env_missing_def)
  have h2: "\<exists>x. toml_load env_malformed = Inl x"
    by (simp add: env_malformed_def)
  have h3: "toml_load env_no_active = Inr (good_config\<lparr>config_active_context := None\<rparr>)
      \<and> \<not> truthy_str (config_active_context (good_config\<lparr>config_active_context := None\<rparr>))"
    by (simp add: env_no_active_def truthy_str_def)
  have h4: "toml_load env_unknown_context
        = Inr (good_config\<lparr>config_active_context := Some ''staging''\<rparr>)
      \<and> config_active_context (good_config\<lparr>config_active_context := Some ''staging''\<rparr>)
        = Some ''staging''
      \<and> find (\<lambda>c. context_name c = Some ''staging'')
          (case config_contexts (good_config\<lparr>config_active_context := Some ''staging''\<rparr>) of
             None \<Rightarrow> [] | Some cs \<Rightarrow> cs) = None"
    by (simp add: env_unknown_context_def good_config_def)
  have h5: "toml_load env_no_token
        = Inr (good_config\<lparr>config_contexts := Some
            [\<lparr>context_name = Some ''prod'', context_token = Some []\<rparr>]\<rparr>)
      \<and> config_active_context (good_config\<lparr>config_contexts := Some
            [\<lparr>context_name = Some ''prod'', context_token = Some []\<rparr>]\<rparr>) = Some ''prod''
      \<and> find (\<lambda>c. context_name c = Some ''prod'')
          (case config_contexts (good_config\<lparr>config_contexts := Some
              [\<lparr>context_name = Some ''prod'', context_token = Some []\<rparr>]\<rparr>) of
             None \<Rightarrow> [] | Some cs \<Rightarrow> cs)
        = Some \<lparr>context_name = Some ''prod'', context_token = Some []\<rparr>
      \<and> \<not> truthy_str (context_token \<lparr>context_name = Some ''prod'', context_token = Some []\<rparr>)"
    by (simp add: env_no_token_def good_config_def truthy_str_def)
  have f1: "\<exists>e. authenticate env_missing = Inl e \<and> module_client env_missing = Inl e"
    using credential_failures_are_fatal [of env_missing] h1 by blast
  have f2: "\<exists>e. authenticate env_malformed = Inl e \<and> module_client env_malformed = Inl e"
    using credential_failures_are_fatal [of env_malformed] h2 by blast
  have f3: "\<exists>e. authenticate env_no_active = Inl e \<and> module_client env_no_active = Inl e"
    using credential_failures_are_fatal
      [of env_no_active "good_config\<lparr>config_active_context := None\<rparr>"] h3
    by blast
  have f4: "\<exists>e. authenticate env_unknown_context = Inl e
      \<and> module_client env_unknown_context = Inl e"
    using credential_failures_are_fatal
      [of env_unknown_context "good_config\<lparr>config_active_context := Some ''staging''\<rparr>"
        "''staging''"] h4
    by blast
  have f5: "\<exists>e. authenticate env_no_token = Inl e \<and> module_client env_no_token = Inl e"
    using credential_failures_are_fatal
      [of env_no_token
        "good_config\<lparr>config_contexts := Some
            [\<lparr>context_name = Some ''prod'', context_token = Some []\<rparr>]\<rparr>"
        "''prod''" "\<lparr>context_name = Some ''prod'', context_token = Some []\<rparr>"] h5
    by blast
  have f6: "module_client env_good = Inr (Client ''s3cr3t'')"
    using credential_failures_are_fatal [of env_good _ _ _ "''s3cr3t''"] g by blast
  have k4: "find (\<lambda>c. context_name c = Some ''staging'')
        (case config_contexts good_config of None \<Rightarrow> [] | Some cs \<Rightarrow> cs) = None"
    by (simp add: good_config_def)
  from h1 h2 h3 h5 k4 f1 f2 f3 f4 f5 f6 g show ?thesis by blast
qed


section \<open>Every handler is a failure boundary\<close>

lemma seq_Continue: "m w = (Continue a, w1) \<Longrightarrow> seq m f w = f a w1"
  by (simp add: seq_def)

lemma seq_Return: "m w = (Return d, w1) \<Longrightarrow> seq m f w = (Return d, w1)"
  by (simp add: seq_def)

lemma seq_Raise: "m w = (Raise e, w1) \<Longrightarrow> seq m f w = (Raise e, w1)"
  by (simp add: seq_def)

lemma try_except_Continue:
  "body w = (Continue a, w1) \<Longrightarrow> try_except body h w = (Continue a, w1)"
  by (simp add: try_except_def)

lemma try_except_Return:
  "body w = (Return d, w1) \<Longrightarrow> try_except body h w = (Return d, w1)"
  by (simp add: try_except_def)

lemma try_except_Raise: "body w = (Raise e, w1) \<Longrightarrow> try_except body h w = h e w1"
  by (simp add: try_except_def)

lemma passesD: "passes P m \<Longrightarrow> m w = (Return d, w1) \<Longrightarrow> P d"
  unfolding passes_def by blast

lemma ends_withD: "ends_with P m \<Longrightarrow> m w = (Return d, w1) \<Longrightarrow> P d"
  unfolding ends_with_def passes_def by blast

lemma ends_with_no_Continue: "ends_with P m \<Longrightarrow> m w \<noteq> (Continue a, w1)"
  unfolding ends_with_def by blast

lemma passesI:
  "(\<And>w d w1. m w = (Return d, w1) \<Longrightarrow> P d) \<Longrightarrow> passes P m"
  unfolding passes_def by blast

lemma ends_withI:
  "(\<And>w d w1. m w = (Return d, w1) \<Longrightarrow> P d) \<Longrightarrow> (\<And>w a w1. m w \<noteq> (Continue a, w1))
     \<Longrightarrow> ends_with P m"
  unfolding ends_with_def passes_def by blast

lemma ends_with_passes: "ends_with P m \<Longrightarrow> passes P m"
  by (rule passesI) (rule ends_withD)

lemma passes_provider_call [simp]: "passes P (provider_call c f)"
  by (rule passesI) (auto simp: provider_call_def split: prod.splits sum.splits)

lemma passes_expr [simp]: "passes P (expr e)"
  by (rule passesI) (auto simp: expr_def split: sum.splits)

lemma passes_continue [simp]: "passes P (continue a)"
  by (rule passesI) (simp add: continue_def)

lemma passes_ret [simp]: "P d \<Longrightarrow> passes P (ret d)"
  by (rule passesI) (simp add: ret_def)

lemma ends_with_ret [simp]: "P d \<Longrightarrow> ends_with P (ret d)"
  by (rule ends_withI) (simp_all add: ret_def)

lemma passes_seq:
  assumes m: "passes P m" and f: "\<And>a. passes P (f a)"
  shows "passes P (seq m f)"
proof (rule passesI)
  fix w d w2
  assume r: "seq m f w = (Return d, w2)"
  obtain x w1 where mw: "m w = (x, w1)" by (cases "m w")
  show "P d"
  proof (cases x)
    case (Continue a)
    with mw r have "f a w1 = (Return d, w2)" by (simp add: seq_def)
    with f [of a] show ?thesis by (rule passesD)
  next
    case (Return d')
    with mw r have "m w = (Return d, w2)" by (simp add: seq_def)
    with m show ?thesis by (rule passesD)
  next
    case (Raise e)
    with mw r show ?thesis by (simp add: seq_def)
  qed
qed

lemma ends_with_seq:
  assumes m: "passes P m" and f: "\<And>a. ends_with P (f a)"
  shows "ends_with P (seq m f)"
proof (rule ends_withI)
  fix w d w2
  assume r: "seq m f w = (Return d, w2)"
  have "passes P (seq m f)"
    by (rule passes_seq [OF m]) (rule ends_with_passes [OF f])
  then show "P d" using r by (rule passesD)
next
  fix w b w2
  obtain x w1 where mw: "m w = (x, w1)" by (cases "m w")
  show "seq m f w \<noteq> (Continue b, w2)"
  proof (cases x)
    case (Continue a)
    with mw have "seq m f w = f a w1" by (simp add: seq_def)
    with f [of a] show ?thesis by (simp add: ends_with_no_Continue)
  next
    case (Return d')
    with mw show ?thesis by (simp add: seq_def)
  next
    case (Raise e)
    with mw show ?thesis by (simp add: seq_def)
  qed
qed

lemma passes_try_except:
  assumes b: "passes P body" and h: "\<And>e. passes P (h e)"
  shows "passes P (try_except body h)"
proof (rule passesI)
  fix w d w2
  assume r: "try_except body h w = (Return d, w2)"
  obtain x w1 where bw: "body w = (x, w1)" by (cases "body w")
  show "P d"
  proof (cases x)
    case (Continue a)
    with bw r show ?thesis by (simp add: try_except_def)
  next
    case (Return d')
    with bw r have "body w = (Return d, w2)" by (simp add: try_except_def)
    with b show ?thesis by (rule passesD)
  next
    case (Raise e)
    with bw r have "h e w1 = (Return d, w2)" by (simp add: try_except_def)
    with h [of e] show ?thesis by (rule passesD)
  qed
qed

lemma eval_items_keys: "eval_items kvs = Inr items \<Longrightarrow> map fst items = map fst kvs"
proof (induction kvs arbitrary: items)
  case Nil
  then show ?case by simp
next
  case (Cons kv kvs)
  obtain k v where kv: "kv = (k, v)" by (cases kv)
  show ?case
  proof (cases v)
    case (Inl e)
    with Cons.prems kv show ?thesis by simp
  next
    case (Inr x)
    show ?thesis
    proof (cases "eval_items kvs")
      case (Inl e)
      with Cons.prems kv Inr show ?thesis by simp
    next
      case r: (Inr rest)
      with Cons.prems kv Inr have "items = (k, x) # rest" by simp
      with Cons.IH [OF r] kv show ?thesis by simp
    qed
  qed
qed

lemma return_dict_Return:
  "return_dict kvs w = (Return d, w1) \<Longrightarrow> \<exists>items. eval_items kvs = Inr items \<and> d = PDict items"
  by (cases "eval_items kvs")
     (auto simp add: return_dict_def seq_def expr_def ret_def py_dict_def)

lemma return_dict_no_Continue: "return_dict kvs w \<noteq> (Continue a, w1)"
  by (cases "eval_items kvs")
     (simp_all add: return_dict_def seq_def expr_def ret_def py_dict_def)

lemma ends_with_return_dict:
  assumes k: "''error'' \<notin> set (map fst kvs)"
  shows "ends_with envelope (return_dict kvs)"
proof (rule ends_withI)
  fix w d w1
  assume r: "return_dict kvs w = (Return d, w1)"
  from return_dict_Return [OF r] obtain items
    where "eval_items kvs = Inr items" and "d = PDict items" by auto
  with eval_items_keys [of kvs items] k show "envelope d"
    by (simp add: envelope_def)
next
  fix w a w1
  show "return_dict kvs w \<noteq> (Continue a, w1)"
    by (rule return_dict_no_Continue)
qed

lemma envelope_error_dict [simp]: "envelope (error_dict msg)"
  by (simp add: envelope_def error_dict_def)

lemma handler_boundary:
  assumes b: "ends_with envelope body"
  shows "\<exists>d w'. try_except body (\<lambda>e. ret (error_dict (msg e))) w = (Return d, w') \<and> envelope d"
proof -
  obtain x w1 where bw: "body w = (x, w1)" by (cases "body w")
  show ?thesis
  proof (cases x)
    case (Continue a)
    with bw b show ?thesis by (simp add: ends_with_no_Continue)
  next
    case (Return d)
    with bw have "try_except body (\<lambda>e. ret (error_dict (msg e))) w = (Return d, w1)"
      by (simp add: try_except_def)
    moreover from b bw Return have "envelope d" by (simp add: ends_withD)
    ultimately show ?thesis by blast
  next
    case (Raise e)
    with bw have "try_except body (\<lambda>e. ret (error_dict (msg e))) w
        = (Return (error_dict (msg e)), w1)"
      by (simp add: try_except_def ret_def)
    then show ?thesis by (metis envelope_error_dict)
  qed
qed

lemmas step_rules = ends_with_seq passes_seq ends_with_return_dict passes_try_except

lemma passes_resolve_ssh_keys: "passes P (resolve_ssh_keys c refs acc)"
proof (induction refs arbitrary: acc)
  case Nil
  show ?case by simp
next
  case (Cons r refs)
  show ?case
    by (cases r) (auto intro!: passes_seq Cons.IH simp: provider_calls split: option.splits)
qed

lemma passes_build_resources: "passes envelope (build_resources c rps acc)"
proof (induction rps arbitrary: acc)
  case Nil
  show ?case by simp
next
  case (Cons rp rps)
  show ?case
    by (auto intro!: passes_seq Cons.IH simp: provider_calls split: option.splits)
qed

lemma passes_create_server_lookup: "passes envelope (create_server_lookup repr c p)"
  unfolding create_server_lookup_def collect_ssh_keys_def
  by (auto intro!: passes_seq passes_resolve_ssh_keys simp: provider_calls split: option.splits)

lemma list_servers_total: "\<exists>d w'. list_servers c w = (Return d, w') \<and> envelope d"
  unfolding list_servers_def
  by (rule handler_boundary) (auto intro!: step_rules simp: provider_calls)

lemma get_server_total: "\<exists>d w'. get_server c i w = (Return d, w') \<and> envelope d"
  unfolding get_server_def
  by (rule handler_boundary) (auto intro!: step_rules simp: provider_calls split: option.splits)

lemma create_server_total: "\<exists>d w'. create_server repr c p w = (Return d, w') \<and> envelope d"
  unfolding create_server_def
  by (rule handler_boundary)
     (auto intro!: step_rules passes_create_server_lookup)

lemma delete_server_total: "\<exists>d w'. delete_server c i w = (Return d, w') \<and> envelope d"
  unfolding delete_server_def
  by (rule handler_boundary) (auto intro!: step_rules simp: provider_calls split: option.splits)

lemma list_images_total: "\<exists>d w'. list_images c w = (Return d, w') \<and> envelope d"
  unfolding list_images_def
  by (rule handler_boundary) (auto intro!: step_rules simp: provider_calls)

lemma list_server_types_total: "\<exists>d w'. list_server_types c w = (Return d, w') \<and> envelope d"
  unfolding list_server_types_def
  by (rule handler_boundary) (auto intro!: step_rules simp: provider_calls)

lemma list_locations_total: "\<exists>d w'. list_locations c w = (Return d, w') \<and> envelope d"
  unfolding list_locations_def
  by (rule handler_boundary) (auto intro!: step_rules simp: provider_calls)

lemma power_on_total: "\<exists>d w'. power_on c i w = (Return d, w') \<and> envelope d"
  unfolding power_on_def
  by (rule handler_boundary) (auto intro!: step_rules simp: provider_calls split: option.splits)

lemma power_off_total: "\<exists>d w'. power_off c i w = (Return d, w') \<and> envelope d"
  unfolding power_off_def
  by (rule handler_boundary) (auto intro!: step_rules simp: provider_calls split: option.splits)

lemma reboot_total: "\<exists>d w'. reboot c i w = (Return d, w') \<and> envelope d"
  unfolding reboot_def
  by (rule handler_boundary) (auto intro!: step_rules simp: provider_calls split: option.splits)

lemma list_firewalls_total: "\<exists>d w'. list_firewalls c w = (Return d, w') \<and> envelope d"
  unfolding list_firewalls_def
  by (rule handler_boundary) (auto intro!: step_rules simp: provider_calls)

lemma get_firewall_total: "\<exists>d w'. get_firewall c i w = (Return d, w') \<and> envelope d"
  unfolding get_firewall_def
  by (rule handler_boundary) (auto intro!: step_rules simp: provider_calls split: option.splits)

lemma create_firewall_total: "\<exists>d w'. create_firewall c p w = (Return d, w') \<and> envelope d"
  unfolding create_firewall_def prepare_resources_def
  by (rule handler_boundary)
     (auto intro!: step_rules passes_build_resources simp: provider_calls)

lemma update_firewall_total: "\<exists>d w'. update_firewall c p w = (Return d, w') \<and> envelope d"
  unfolding update_firewall_def
  by (rule handler_boundary) (auto intro!: step_rules simp: provider_calls split: option.splits)

lemma delete_firewall_total: "\<exists>d w'. delete_firewall c i w = (Return d, w') \<and> envelope d"
  unfolding delete_firewall_def
  by (rule handler_boundary) (auto intro!: step_rules simp: provider_calls split: option.splits)

lemma set_firewall_rules_total:
  "\<exists>d w'. set_firewall_rules c p w = (Return d, w') \<and> envelope d"
  unfolding set_firewall_rules_def
  by (rule handler_boundary) (auto intro!: step_rules simp: provider_calls split: option.splits)

lemma apply_firewall_to_resources_total:
  "\<exists>d w'. apply_firewall_to_resources c p w = (Return d, w') \<and> envelope d"
  unfolding apply_firewall_to_resources_def
  by (rule handler_boundary)
     (auto intro!: step_rules passes_build_resources simp: provider_calls split: option.splits)

lemma remove_firewall_from_resources_total:
  "\<exists>d w'. remove_firewall_from_resources c p w = (Return d, w') \<and> envelope d"
  unfolding remove_firewall_from_resources_def
  by (rule handler_boundary)
     (auto intro!: step_rules passes_build_resources simp: provider_calls split: option.splits)

lemma list_volumes_total: "\<exists>d w'. list_volumes c w = (Return d, w') \<and> envelope d"
  unfolding list_volumes_def
  by (rule handler_boundary) (auto intro!: step_rules simp: provider_calls)

lemma get_volume_total: "\<exists>d w'. get_volume c i w = (Return d, w') \<and> envelope d"
  unfolding get_volume_def
  by (rule handler_boundary) (auto intro!: step_rules simp: provider_calls split: option.splits)

lemma create_volume_total: "\<exists>d w'. create_volume c p w = (Return d, w') \<and> envelope d"
  unfolding create_volume_def lookup_volume_location_def lookup_volume_server_def
  by (rule handler_boundary) (auto intro!: step_rules simp: provider_calls split: option.splits)

lemma delete_volume_total: "\<exists>d w'. delete_volume c i w = (Return d, w') \<and> envelope d"
  unfolding delete_volume_def
  by (rule handler_boundary) (auto intro!: step_rules simp: provider_calls split: option.splits)

lemma attach_volume_total: "\<exists>d w'. attach_volume c p w = (Return d, w') \<and> envelope d"
  unfolding attach_volume_def
  by (rule handler_boundary) (auto intro!: step_rules simp: provider_calls split: option.splits)

lemma detach_volume_total: "\<exists>d w'. detach_volume c i w = (Return d, w') \<and> envelope d"
  unfolding detach_volume_def
  by (rule handler_boundary) (auto intro!: step_rules simp: provider_calls split: option.splits)

lemma resize_volume_total: "\<exists>d w'. resize_volume c p w = (Return d, w') \<and> envelope d"
  unfolding resize_volume_def
  by (rule handler_boundary) (auto intro!: step_rules simp: provider_calls split: option.splits)

lemma list_ssh_keys_total: "\<exists>d w'. list_ssh_keys c w = (Return d, w') \<and> envelope d"
  unfolding list_ssh_keys_def
  by (rule handler_boundary) (auto intro!: step_rules simp: provider_calls)

lemma get_ssh_key_total: "\<exists>d w'. get_ssh_key c i w = (Return d, w') \<and> envelope d"
  unfolding get_ssh_key_def
  by (rule handler_boundary) (auto intro!: step_rules simp: provider_calls split: option.splits)

lemma create_ssh_key_total: "\<exists>d w'. create_ssh_key c p w = (Return d, w') \<and> envelope d"
  unfolding create_ssh_key_def
  by (rule handler_boundary) (auto intro!: step_rules simp: provider_calls)

lemma update_ssh_key_total: "\<exists>d w'. update_ssh_key c p w = (Return d, w') \<and> envelope d"
  unfolding update_ssh_key_def
  by (rule handler_boundary) (auto intro!: step_rules simp: provider_calls split: option.splits)

lemma delete_ssh_key_total: "\<exists>d w'. delete_ssh_key c i w = (Return d, w') \<and> envelope d"
  unfolding delete_ssh_key_def
  by (rule handler_boundary) (auto intro!: step_rules simp: provider_calls split: option.splits)

lemmas handlers_total =
  list_servers_total get_server_total create_server_total delete_server_total
  list_images_total list_server_types_total list_locations_total power_on_total
  power_off_total reboot_total list_firewalls_total get_firewall_total
  create_firewall_total update_firewall_total delete_firewall_total
  set_firewall_rules_total apply_firewall_to_resources_total
  remove_firewall_from_resources_total list_volumes_total get_volume_total
  create_volume_total delete_volume_total attach_volume_total detach_volume_total
  resize_volume_total list_ssh_keys_total get_ssh_key_total create_ssh_key_total
  update_ssh_key_total delete_ssh_key_total

text \<open>
  Claim C1. Every registered tool, on every request, every provider (whatever its
  operations answer or raise) and every world, returns; the value returned is
  \<^verbatim>\<open>{"error": <message>}\<close> or a dictionary without the key \<^verbatim>\<open>error\<close>. No outcome
  is a raised exception.
\<close>

theorem handlers_never_raise:
  "\<exists>d w'. call_tool repr client request w = (Return d, w')
     \<and> (is_error_envelope d \<or> is_success_envelope d)"
  using handlers_total [where 'a = 's]
  by (cases request) (simp_all add: envelope_def)

section \<open>Unresolved identifiers\<close>

lemmas exec = seq_def try_except_def ret_def continue_def expr_def provider_call_def provider_calls

lemma snd_ret [simp]: "snd (ret d w) = w"
  by (simp add: ret_def)

lemma snd_return_dict [simp]: "snd (return_dict kvs w) = w"
  by (cases "py_dict kvs") (simp_all add: return_dict_def exec)

lemma snd_try_except_ret: "snd (try_except m (\<lambda>e. ret (d e)) w) = snd (m w)"
proof -
  obtain x w1 where "m w = (x, w1)" by (cases "m w")
  then show ?thesis by (cases x) (simp_all add: try_except_def ret_def)
qed

lemma snd_seq_return_dict: "snd (seq m (\<lambda>a. return_dict (kvs a)) w) = snd (m w)"
proof -
  obtain x w1 where "m w = (x, w1)" by (cases "m w")
  then show ?thesis by (cases x) (simp_all add: seq_def)
qed

lemma return_dict_Inr: "py_dict kvs = Inr d \<Longrightarrow> return_dict kvs w = (Return d, w)"
  by (simp add: return_dict_def exec)













section \<open>Volume resize and detach are guarded\<close>

lemma resize_volume_too_small:
  assumes "volumes_get_by_id (client_volumes c) (rvp_volume_id p) s = (Inr (Some vol), s')"
    and "rvp_size p \<le> volume_size vol"
  shows "resize_volume c p (s, t) =
     (Return (error_dict
        (''New size ('' @ str_int (rvp_size p) @ '' GB) must be greater than current size (''
         @ str_int (volume_size vol) @ '' GB)'')),
      (s', t @ [VolumesGetById (rvp_volume_id p)]))"
  using assms by (simp add: resize_volume_def exec)

lemma resize_volume_world:
  "snd (resize_volume c p (s, t)) =
     (case volumes_get_by_id (client_volumes c) (rvp_volume_id p) s of
        (Inr (Some vol), s1) \<Rightarrow>
          if rvp_size p \<le> volume_size vol then (s1, t @ [VolumesGetById (rvp_volume_id p)])
          else (snd (volumes_resize (client_volumes c) vol (rvp_size p) s1),
                t @ [VolumesGetById (rvp_volume_id p),
                     VolumesResize (volume_id vol) (rvp_size p)])
      | (Inr None, s1) \<Rightarrow> (s1, t @ [VolumesGetById (rvp_volume_id p)])
      | (Inl e, s1) \<Rightarrow> (s1, t @ [VolumesGetById (rvp_volume_id p)]))"
  unfolding resize_volume_def snd_try_except_ret
  by (auto simp: seq_def provider_call_def provider_calls ret_def
      snd_seq_return_dict [unfolded seq_def]
      split: prod.splits sum.splits option.splits)

lemma resize_only_when_greater:
  assumes run: "resize_volume c p (s, t) = (r, (s2, t @ cs))"
    and call: "VolumesResize v n \<in> set cs"
  shows "\<exists>vol s1. volumes_get_by_id (client_volumes c) (rvp_volume_id p) s = (Inr (Some vol), s1)
     \<and> volume_size vol < rvp_size p \<and> v = volume_id vol \<and> n = rvp_size p"
proof -
  from run have w: "snd (resize_volume c p (s, t)) = (s2, t @ cs)" by simp
  obtain x s1 where g: "volumes_get_by_id (client_volumes c) (rvp_volume_id p) s = (x, s1)"
    by (cases "volumes_get_by_id (client_volumes c) (rvp_volume_id p) s")
  show ?thesis
  proof (cases x)
    case (Inl e)
    with w g call show ?thesis by (auto simp: resize_volume_world)
  next
    case (Inr ov)
    show ?thesis
    proof (cases ov)
      case None
      with w g Inr call show ?thesis by (auto simp: resize_volume_world)
    next
      case (Some vol)
      with w g Inr call show ?thesis
        by (cases "rvp_size p \<le> volume_size vol") (auto simp: resize_volume_world)
    qed
  qed
qed

text \<open>
  Claim C4. When the volume resolves and the requested size is not greater than the
  size of the volume just fetched, \<^verbatim>\<open>resize_volume\<close> returns the error and its only
  provider call is the lookup. Whenever an invocation of \<^verbatim>\<open>resize_volume\<close> calls the
  provider's resize, the lookup of that invocation has answered with a volume that is
  strictly smaller than the requested size, and the call is for that volume and size.
\<close>

theorem resize_requires_growth:
  "(volumes_get_by_id (client_volumes c) (rvp_volume_id p) s = (Inr (Some vol), s')
      \<and> rvp_size p \<le> volume_size vol \<longrightarrow>
    resize_volume c p (s, t) =
      (Return (error_dict
         (''New size ('' @ str_int (rvp_size p) @ '' GB) must be greater than current size (''
          @ str_int (volume_size vol) @ '' GB)'')),
       (s', t @ [VolumesGetById (rvp_volume_id p)])))
   \<and> (resize_volume c p (s, t) = (r, (s2, t @ cs)) \<and> VolumesResize v n \<in> set cs \<longrightarrow>
    (\<exists>vol s1. volumes_get_by_id (client_volumes c) (rvp_volume_id p) s = (Inr (Some vol), s1)
       \<and> volume_size vol < rvp_size p \<and> v = volume_id vol \<and> n = rvp_size p))"
  using resize_volume_too_small [of c p s vol s' t] resize_only_when_greater [of c p s t r s2 cs v n]
  by blast

lemma str_int_samples: "str_int 5 = ''5''" "str_int 7 = ''7''" "str_int 10 = ''10''"
  by (simp_all add: str_int_def str_nat.simps digit_char_def)

text \<open>
  The theorem at the sample provider: volume 7 has 10 GB, so the request for 5 GB and the
  request for 10 GB are refused after the lookup, and the request for 20 GB, which
  reaches the provider's resize, asks for more than the volume has.
\<close>

theorem resize_requires_growth_witness:
  "volumes_get_by_id (client_volumes sample_client) 7 () = (Inr (Some bare_volume), ())
   \<and> volume_size bare_volume = 10
   \<and> resize_volume sample_client \<lparr>rvp_volume_id = 7, rvp_size = 5\<rparr> ((), []) =
       (Return (error_dict ''New size (5 GB) must be greater than current size (10 GB)''),
        ((), [VolumesGetById 7]))
   \<and> resize_volume sample_client \<lparr>rvp_volume_id = 7, rvp_size = 10\<rparr> ((), []) =
       (Return (error_dict ''New size (10 GB) must be greater than current size (10 GB)''),
        ((), [VolumesGetById 7]))
   \<and> snd (resize_volume sample_client \<lparr>rvp_volume_id = 7, rvp_size = 20\<rparr> ((), [])) =
       ((), [] @ [VolumesGetById 7, VolumesResize 7 20])
   \<and> VolumesResize 7 20 \<in> set [VolumesGetById 7, VolumesResize 7 20]
   \<and> (\<exists>vol s1. volumes_get_by_id (client_volumes sample_client) 7 () = (Inr (Some vol), s1)
         \<and> volume_size vol < 20 \<and> 7 = volume_id vol)"
proof -
  have h: "volumes_get_by_id (client_volumes sample_client) 7 () = (Inr (Some bare_volume), ())"
    by (simp add: sample_client_def)
  have sz: "volume_size bare_volume = 10" "volume_id bare_volume = 7"
    by (simp_all add: bare_volume_def)
  have w: "snd (resize_volume sample_client \<lparr>rvp_volume_id = 7, rvp_size = 20\<rparr> ((), [])) =
       ((), [] @ [VolumesGetById 7, VolumesResize 7 20])"
    by (simp add: resize_volume_world h sz)
  obtain r where run: "resize_volume sample_client \<lparr>rvp_volume_id = 7, rvp_size = 20\<rparr> ((), [])
      = (r, ((), [] @ [VolumesGetById 7, VolumesResize 7 20]))"
    using w by (cases "resize_volume sample_client \<lparr>rvp_volume_id = 7, rvp_size = 20\<rparr> ((), [])")
      simp
  have small: "resize_volume sample_client \<lparr>rvp_volume_id = 7, rvp_size = 5\<rparr> ((), []) =
       (Return (error_dict ''New size (5 GB) must be greater than current size (10 GB)''),
        ((), [VolumesGetById 7]))"
    using resize_requires_growth
      [where c = sample_client and p = "\<lparr>rvp_volume_id = 7, rvp_size = 5\<rparr>" and s = "()"
        and s' = "()" and vol = bare_volume and t = "[]"] h sz
    by (simp add: str_int_samples)
  have equal: "resize_volume sample_client \<lparr>rvp_volume_id = 7, rvp_size = 10\<rparr> ((), []) =
       (Return (error_dict ''New size (10 GB) must be greater than current size (10 GB)''),
        ((), [VolumesGetById 7]))"
    using resize_requires_growth
      [where c = sample_client and p = "\<lparr>rvp_volume_id = 7, rvp_size = 10\<rparr>" and s = "()"
        and s' = "()" and vol = bare_volume and t = "[]"] h sz
    by (simp add: str_int_samples)
  have grown: "\<exists>vol s1. volumes_get_by_id (client_volumes sample_client) 7 ()
        = (Inr (Some vol), s1) \<and> volume_size vol < 20 \<and> 7 = volume_id vol"
    using resize_requires_growth
      [where c = sample_client and p = "\<lparr>rvp_volume_id = 7, rvp_size = 20\<rparr>" and s = "()"
        and t = "[]" and r = r and ?s2.0 = "()"
        and cs = "[VolumesGetById 7, VolumesResize 7 20]" and v = 7 and n = 20] run
    by simp
  from h sz w small equal grown show ?thesis by simp
qed

lemma detach_volume_unattached:
  assumes "volumes_get_by_id (client_volumes c) i s = (Inr (Some vol), s')"
    and "volume_server vol = None"
  shows "detach_volume c i (s, t) =
     (Return (error_dict (''Volume with ID '' @ str_int i @ '' is not attached to any server'')),
      (s', t @ [VolumesGetById i]))"
  using assms by (simp add: detach_volume_def exec truthy_def)

lemma detach_volume_world:
  "snd (detach_volume c i (s, t)) =
     (case volumes_get_by_id (client_volumes c) i s of
        (Inr (Some vol), s1) \<Rightarrow>
          if volume_server vol = None then (s1, t @ [VolumesGetById i])
          else (snd (volumes_detach (client_volumes c) vol s1),
                t @ [VolumesGetById i, VolumesDetach (volume_id vol)])
      | (Inr None, s1) \<Rightarrow> (s1, t @ [VolumesGetById i])
      | (Inl e, s1) \<Rightarrow> (s1, t @ [VolumesGetById i]))"
  unfolding detach_volume_def snd_try_except_ret
  by (auto simp: seq_def provider_call_def provider_calls ret_def truthy_def
      snd_seq_return_dict [unfolded seq_def]
      split: prod.splits sum.splits option.splits)

lemma detach_only_when_attached:
  assumes run: "detach_volume c i (s, t) = (r, (s2, t @ cs))"
    and call: "VolumesDetach v \<in> set cs"
  shows "\<exists>vol s1. volumes_get_by_id (client_volumes c) i s = (Inr (Some vol), s1)
     \<and> volume_server vol \<noteq> None \<and> v = volume_id vol"
proof -
  from run have w: "snd (detach_volume c i (s, t)) = (s2, t @ cs)" by simp
  obtain x s1 where g: "volumes_get_by_id (client_volumes c) i s = (x, s1)"
    by (cases "volumes_get_by_id (client_volumes c) i s")
  show ?thesis
  proof (cases x)
    case (Inl e)
    with w g call show ?thesis by (auto simp: detach_volume_world)
  next
    case (Inr ov)
    show ?thesis
    proof (cases ov)
      case None
      with w g Inr call show ?thesis by (auto simp: detach_volume_world)
    next
      case (Some vol)
      with w g Inr call show ?thesis
        by (cases "volume_server vol = None") (auto simp: detach_volume_world)
    qed
  qed
qed

text \<open>
  Claim C5. When the volume resolves and has no server, \<^verbatim>\<open>detach_volume\<close> returns
  the error that names the volume's ID, and its only provider call is the lookup.
  Whenever an invocation of \<^verbatim>\<open>detach_volume\<close> calls the provider's detach, the lookup
  of that invocation has answered with a volume that has a server.
\<close>

theorem detach_requires_attachment:
  "(volumes_get_by_id (client_volumes c) i s = (Inr (Some vol), s')
      \<and> volume_server vol = None \<longrightarrow>
    detach_volume c i (s, t) =
      (Return (error_dict
         (''Volume with ID '' @ str_int i @ '' is not attached to any server'')),
       (s', t @ [VolumesGetById i])))
   \<and> (detach_volume c i (s, t) = (r, (s2, t @ cs)) \<and> VolumesDetach v \<in> set cs \<longrightarrow>
    (\<exists>vol s1. volumes_get_by_id (client_volumes c) i s = (Inr (Some vol), s1)
       \<and> volume_server vol \<noteq> None \<and> v = volume_id vol))"
  using detach_volume_unattached [of c i s vol s' t] detach_only_when_attached [of c i s t r s2 cs v]
  by blast

text \<open>
  The theorem at the sample provider: volume 7 has no server and is refused after the
  lookup; volume 8 has one, and the invocation that reaches the provider's detach is
  the one for it.
\<close>

theorem detach_requires_attachment_witness:
  "volumes_get_by_id (client_volumes sample_client) 7 () = (Inr (Some bare_volume), ())
   \<and> volume_server bare_volume = None
   \<and> detach_volume sample_client 7 ((), []) =
       (Return (error_dict ''Volume with ID 7 is not attached to any server''),
        ((), [VolumesGetById 7]))
   \<and> snd (detach_volume sample_client 8 ((), [])) =
       ((), [] @ [VolumesGetById 8, VolumesDetach 8])
   \<and> VolumesDetach 8 \<in> set [VolumesGetById 8, VolumesDetach 8]
   \<and> (\<exists>vol s1. volumes_get_by_id (client_volumes sample_client) 8 () = (Inr (Some vol), s1)
         \<and> volume_server vol \<noteq> None \<and> 8 = volume_id vol)"
proof -
  have h: "volumes_get_by_id (client_volumes sample_client) 7 () = (Inr (Some bare_volume), ())"
    "volumes_get_by_id (client_volumes sample_client) 8 () = (Inr (Some attached_volume), ())"
    by (simp_all add: sample_client_def)
  have v: "volume_server bare_volume = None" "volume_server attached_volume \<noteq> None"
    "volume_id attached_volume = 8"
    by (simp_all add: bare_volume_def attached_volume_def)
  have w: "snd (detach_volume sample_client 8 ((), [])) =
       ((), [] @ [VolumesGetById 8, VolumesDetach 8])"
    by (simp add: detach_volume_world h v)
  obtain r where run: "detach_volume sample_client 8 ((), [])
      = (r, ((), [] @ [VolumesGetById 8, VolumesDetach 8]))"
    using w by (cases "detach_volume sample_client 8 ((), [])") simp
  have refused: "detach_volume sample_client 7 ((), []) =
       (Return (error_dict ''Volume with ID 7 is not attached to any server''),
        ((), [VolumesGetById 7]))"
    using detach_requires_attachment
      [where c = sample_client and i = 7 and s = "()" and s' = "()" and vol = bare_volume
        and t = "[]"] h v
    by (simp add: str_int_samples)
  have attached: "\<exists>vol s1. volumes_get_by_id (client_volumes sample_client) 8 ()
        = (Inr (Some vol), s1) \<and> volume_server vol \<noteq> None \<and> 8 = volume_id vol"
    using detach_requires_attachment
      [where c = sample_client and i = 8 and s = "()" and t = "[]" and r = r
        and ?s2.0 = "()" and cs = "[VolumesGetById 8, VolumesDetach 8]" and v = 8] run
    by simp
  from h v w refused attached show ?thesis by simp
qed

section \<open>The calls a statement adds to the log\<close>

lemma list_all_butlast: "list_all A cs \<Longrightarrow> list_all A (butlast cs)"
  by (induction cs) auto

lemma quiet_final: "quiet A m \<Longrightarrow> final A m"
  unfolding quiet_def final_def by (meson list_all_butlast)

lemma quiet_mono: "quiet (\<lambda>c. False) m \<Longrightarrow> quiet A m"
  unfolding quiet_def
proof
  fix w
  assume "\<forall>w. \<exists>cs. snd (snd (m w)) = snd w @ cs \<and> list_all (\<lambda>c. False) cs"
  then obtain cs where cs: "snd (snd (m w)) = snd w @ cs" "list_all (\<lambda>c. False) cs" by blast
  from cs(2) have "cs = []" by (cases cs) auto
  with cs(1) show "\<exists>cs. snd (snd (m w)) = snd w @ cs \<and> list_all A cs" by simp
qed

lemma quiet_ret [simp]: "quiet A (ret d)"
  by (simp add: quiet_def ret_def)

lemma quiet_continue [simp]: "quiet A (continue a)"
  by (simp add: quiet_def continue_def)

lemma quiet_expr [simp]: "quiet A (expr e)"
  by (cases e) (simp_all add: quiet_def expr_def)

lemma quiet_provider_call [simp]: "A c \<Longrightarrow> quiet A (provider_call c f)"
  unfolding quiet_def provider_call_def
  by (auto split: prod.splits sum.splits)

lemma final_provider_call [simp]: "final A (provider_call c f)"
  unfolding final_def provider_call_def
  by (auto split: prod.splits sum.splits)

lemma seq_trace:
  "(\<exists>a w1. m w = (Continue a, w1) \<and> seq m f w = f a w1) \<or> snd (seq m f w) = snd (m w)"
proof -
  obtain x w1 where mw: "m w = (x, w1)" by (cases "m w")
  then show ?thesis by (cases x) (simp_all add: seq_def)
qed


lemma quiet_seq:
  assumes m: "quiet A m" and f: "\<And>a. quiet A (f a)"
  shows "quiet A (seq m f)"
  unfolding quiet_def
proof
  fix w
  from m obtain cs1 where c1: "snd (snd (m w)) = snd w @ cs1" "list_all A cs1"
    unfolding quiet_def by blast
  from seq_trace [of m w f]
  show "\<exists>cs. snd (snd (seq m f w)) = snd w @ cs \<and> list_all A cs"
  proof
    assume "\<exists>a w1. m w = (Continue a, w1) \<and> seq m f w = f a w1"
    then obtain a w1 where s: "m w = (Continue a, w1)" "seq m f w = f a w1" by blast
    from f [of a] obtain cs2 where c2: "snd (snd (f a w1)) = snd w1 @ cs2" "list_all A cs2"
      unfolding quiet_def by blast
    from s c1 c2 have "snd (snd (seq m f w)) = snd w @ (cs1 @ cs2)" by simp
    moreover from c1 c2 have "list_all A (cs1 @ cs2)" by simp
    ultimately show ?thesis by blast
  next
    assume "snd (seq m f w) = snd (m w)"
    with c1 show ?thesis by auto
  qed
qed


lemma final_seq_silent:
  assumes m: "final A m" and f: "\<And>a. quiet (\<lambda>c. False) (f a)"
  shows "final A (seq m f)"
  unfolding final_def
proof
  fix w
  from m obtain cs1 where c1: "snd (snd (m w)) = snd w @ cs1" "list_all A (butlast cs1)"
    unfolding final_def by blast
  from seq_trace [of m w f]
  show "\<exists>cs. snd (snd (seq m f w)) = snd w @ cs \<and> list_all A (butlast cs)"
  proof
    assume "\<exists>a w1. m w = (Continue a, w1) \<and> seq m f w = f a w1"
    then obtain a w1 where s: "m w = (Continue a, w1)" "seq m f w = f a w1" by blast
    from f [of a] obtain cs2
      where c2: "snd (snd (f a w1)) = snd w1 @ cs2" "list_all (\<lambda>c. False) cs2"
      unfolding quiet_def by blast
    from c2(2) have "cs2 = []" by (cases cs2) auto
    with s c1 c2 have "snd (snd (seq m f w)) = snd w @ cs1" by simp
    with c1 show ?thesis by blast
  next
    assume "snd (seq m f w) = snd (m w)"
    with c1 show ?thesis by auto
  qed
qed



lemma quiet_return_dict [simp]: "quiet A (return_dict kvs)"
  unfolding return_dict_def by (intro quiet_seq) simp_all

lemma final_ret [simp]: "final A (ret d)"
  by (simp add: quiet_final)



lemma final_seq_silent_all:
  "final A m \<Longrightarrow> \<forall>a. quiet (\<lambda>c. False) (f a) \<Longrightarrow> final A (seq m f)"
  by (simp add: final_seq_silent)







section \<open>Firewall resource entries are checked in order\<close>




lemma is_error_envelope_error_dict [simp]: "is_error_envelope (error_dict msg)"
  by (simp add: error_dict_def)











section \<open>The envelope of create_server\<close>

lemma action_fields_ok: "\<not> isl (action_fields (Some a))"
  by (simp add: action_fields_def py_dict_ok attr_def)

lemma action_to_dict_ok: "\<not> isl (action_to_dict a)"
  by (cases a) (simp_all add: action_to_dict_def py_if_def truthy_def action_fields_ok)


lemma return_dict_ok:
  "list_all (\<lambda>kv. \<not> isl (snd kv)) kvs \<Longrightarrow>
     return_dict kvs w = (Return (PDict (map (\<lambda>kv. (fst kv, projr (snd kv))) kvs)), w)"
  by (simp add: return_dict_Inr py_dict_ok)

lemma Inr_projr: "\<not> isl v \<Longrightarrow> v = Inr (projr v)"
  by (cases v) simp_all

lemma error_is_not_success: "is_error_envelope d \<Longrightarrow> \<not> is_success_envelope d"
  by (induction d rule: is_error_envelope.induct) auto

lemma seq_Continue_iff:
  "seq m f w = (Continue b, w2) \<longleftrightarrow> (\<exists>a w1. m w = (Continue a, w1) \<and> f a w1 = (Continue b, w2))"
proof -
  obtain x w1 where mw: "m w = (x, w1)" by (cases "m w")
  then show ?thesis by (cases x) (simp_all add: seq_def)
qed

lemma seq_ContinueE:
  assumes "seq m f w = (Continue b, w2)"
  obtains a w1 where "m w = (Continue a, w1)" and "f a w1 = (Continue b, w2)"
  using assms by (auto simp: seq_Continue_iff)

lemma provider_call_Continue_iff:
  "provider_call c f w = (Continue v, w') \<longleftrightarrow>
     (\<exists>s'. f (fst w) = (Inr v, s') \<and> w' = (s', snd w @ [c]))"
proof -
  obtain x s1 where fw: "f (fst w) = (x, s1)" by (cases "f (fst w)")
  then show ?thesis by (cases x) (auto simp: provider_call_def)
qed

lemma ret_not_Continue [simp]: "ret d w \<noteq> (Continue a, w')"
  by (simp add: ret_def)

lemma passes_error_create_server_lookup:
  "passes is_error_envelope (create_server_lookup repr c p)"
  unfolding create_server_lookup_def collect_ssh_keys_def
  by (auto intro!: passes_seq passes_resolve_ssh_keys simp: provider_calls split: option.splits)

lemma create_server_lookup_Continue:
  assumes "create_server_lookup repr c p (s, t) = (Continue response, (s', t'))"
  shows "\<exists>st img loc keys s1 t1.
           servers_create (client_servers c) (csp_name p) st img loc keys s1 = (Inr response, s')
           \<and> t' = t1 @ [ServersCreate (csp_name p)]"
  using assms
  unfolding create_server_lookup_def call_servers_create_def
  by (auto elim!: seq_ContinueE simp: provider_call_Continue_iff split: option.splits) blast

lemma create_server_from_response:
  assumes "create_server_lookup repr c p w = (Continue response, w')"
  shows "create_server repr c p w =
    (Return (PDict
       [(''server'', projr (server_to_dict (response_server response))),
        (''action'', projr (action_to_dict (response_action response))),
        (''root_password'', response_root_password response)]), w')"
  using assms
  by (simp add: create_server_def try_except_def seq_def return_dict_ok server_to_dict_ok
      action_to_dict_ok)

lemma create_server_success:
  assumes run: "create_server repr c p w = (Return d, w')" and ok: "is_success_envelope d"
  shows "\<exists>response. create_server_lookup repr c p w = (Continue response, w')
     \<and> d = PDict
       [(''server'', projr (server_to_dict (response_server response))),
        (''action'', projr (action_to_dict (response_action response))),
        (''root_password'', response_root_password response)]"
proof -
  obtain x w1 where l: "create_server_lookup repr c p w = (x, w1)"
    by (cases "create_server_lookup repr c p w")
  show ?thesis
  proof (cases x)
    case (Continue response)
    with l run create_server_from_response [of repr c p w response w1] show ?thesis by auto
  next
    case (Return d1)
    with l have "create_server repr c p w = (Return d1, w1)"
      by (simp add: create_server_def try_except_def seq_def)
    moreover from l Return have "is_error_envelope d1"
      using passes_error_create_server_lookup [of repr c p] by (auto dest: passesD)
    ultimately show ?thesis using run ok by (auto dest: error_is_not_success)
  next
    case (Raise e)
    with l have "create_server repr c p w
        = (Return (error_dict (''Failed to create server: '' @ str_exn e)), w1)"
      by (simp add: create_server_def try_except_def seq_def ret_def)
    with run ok show ?thesis by (auto simp: error_dict_def)
  qed
qed

text \<open>
  Claim C10. Whenever \<^verbatim>\<open>create_server\<close> returns a success envelope, the provider's
  \<^verbatim>\<open>servers.create\<close> has answered with a response, and the envelope is exactly the
  converted server of that response, its converted action (\<^verbatim>\<open>None\<close> when the response
  has none) and, under the key \<^verbatim>\<open>root_password\<close>, the \<^verbatim>\<open>root_password\<close> of the response,
  unchanged. The handler copies the field whether or not keys were passed; when it is
  \<^verbatim>\<open>None\<close> is the provider's matter.
\<close>

theorem create_server_returns_root_password:
  "create_server repr c p (s, t) = (Return d, (s', t')) \<and> is_success_envelope d \<longrightarrow>
     (\<exists>response st img loc keys s1 sd ad.
        servers_create (client_servers c) (csp_name p) st img loc keys s1 = (Inr response, s')
        \<and> server_to_dict (response_server response) = Inr sd
        \<and> action_to_dict (response_action response) = Inr ad
        \<and> d = PDict [(''server'', sd), (''action'', ad),
                      (''root_password'', response_root_password response)])"
proof
  assume a: "create_server repr c p (s, t) = (Return d, (s', t')) \<and> is_success_envelope d"
  with create_server_success [of repr c p "(s, t)" d "(s', t')"]
  obtain response where l: "create_server_lookup repr c p (s, t) = (Continue response, (s', t'))"
    and d: "d = PDict
       [(''server'', projr (server_to_dict (response_server response))),
        (''action'', projr (action_to_dict (response_action response))),
        (''root_password'', response_root_password response)]"
    by auto
  from create_server_lookup_Continue [OF l] obtain st img loc keys s1
    where c: "servers_create (client_servers c) (csp_name p) st img loc keys s1
      = (Inr response, s')"
    by auto
  have sd: "server_to_dict (response_server response)
      = Inr (projr (server_to_dict (response_server response)))"
    by (rule Inr_projr) (rule server_to_dict_ok)
  have ad: "action_to_dict (response_action response)
      = Inr (projr (action_to_dict (response_action response)))"
    by (rule Inr_projr) (rule action_to_dict_ok)
  from c sd ad d show "\<exists>response st img loc keys s1 sd ad.
        servers_create (client_servers c) (csp_name p) st img loc keys s1 = (Inr response, s')
        \<and> server_to_dict (response_server response) = Inr sd
        \<and> action_to_dict (response_action response) = Inr ad
        \<and> d = PDict [(''server'', sd), (''action'', ad),
                      (''root_password'', response_root_password response)]"
    by blast
qed

lemma create_without_keys_run:
  "create_server sample_repr sample_client create_without_keys ((), []) =
      (Return
         (PDict
           [(''server'',
             PDict
              [(''id'', PInt 42), (''name'', PStr ''web''),
               (''status'', PStr ''running''), (''created'', PNone),
               (''server_type'', PNone), (''image'', PNone),
               (''datacenter'', PNone), (''location'', PNone),
               (''public_net'', PDict [(''ipv4'', PNone), (''ipv6'', PNone)]),
               (''included_traffic'', PNone), (''outgoing_traffic'', PNone),
               (''ingoing_traffic'', PNone), (''backup_window'', PNone),
               (''rescue_enabled'', PBool False), (''locked'', PBool False),
               (''protection'',
                PDict [(''delete'', PBool False), (''rebuild'', PBool False)]),
               (''labels'', PDict []), (''volumes'', PList [])]),
            (''action'',
             PDict
              [(''id'', PInt 1), (''status'', PStr ''running''),
               (''command'', PStr ''start_server''), (''progress'', PInt 0),
               (''error'', PNone),
               (''started'', PStr ''2024-01-01T00:00:00+00:00''),
               (''finished'', PNone)]),
            (''root_password'', PStr ''hunter2'')]),
       ((),
        [ServerTypesGetAll, ImagesGetAll, LocationsGetAll,
         ServerTypesGetByName ''cx11'', ImagesGetByName ''ubuntu-22.04'',
         LocationsGetByName (Some ''nbg1''), ServersCreate ''web'']))"
  by (simp add: create_without_keys_def create_with_unknown_key_def sample_client_def
      create_server_def create_server_lookup_def collect_ssh_keys_def exec return_dict_def
      server_to_dict_def action_to_dict_def action_fields_def iso_or_none_def
      py_dict_def expr_defs bare_server_def sample_action_def
      sample_server_type_def sample_image_def sample_location_def)

text \<open>
  The theorem at the sample provider and a request without keys: the envelope is a
  success, and its \<^verbatim>\<open>root_password\<close> is the one of the provider's response.
\<close>

theorem create_server_returns_root_password_witness:
  "\<exists>d t'. create_server sample_repr sample_client create_without_keys ((), [])
       = (Return d, ((), t'))
     \<and> is_success_envelope d
     \<and> dict_get d ''root_password'' = Some (PStr ''hunter2'')
     \<and> (\<exists>response st img loc keys s1 sd ad.
          servers_create (client_servers sample_client) (csp_name create_without_keys)
            st img loc keys s1 = (Inr response, ())
          \<and> server_to_dict (response_server response) = Inr sd
          \<and> action_to_dict (response_action response) = Inr ad
          \<and> d = PDict [(''server'', sd), (''action'', ad),
                        (''root_password'', response_root_password response)])"
proof -
  let ?d = "PDict
           [(''server'',
             PDict
              [(''id'', PInt 42), (''name'', PStr ''web''),
               (''status'', PStr ''running''), (''created'', PNone),
               (''server_type'', PNone), (''image'', PNone),
               (''datacenter'', PNone), (''location'', PNone),
               (''public_net'', PDict [(''ipv4'', PNone), (''ipv6'', PNone)]),
               (''included_traffic'', PNone), (''outgoing_traffic'', PNone),
               (''ingoing_traffic'', PNone), (''backup_window'', PNone),
               (''rescue_enabled'', PBool False), (''locked'', PBool False),
               (''protection'',
                PDict [(''delete'', PBool False), (''rebuild'', PBool False)]),
               (''labels'', PDict []), (''volumes'', PList [])]),
            (''action'',
             PDict
              [(''id'', PInt 1), (''status'', PStr ''running''),
               (''command'', PStr ''start_server''), (''progress'', PInt 0),
               (''error'', PNone),
               (''started'', PStr ''2024-01-01T00:00:00+00:00''),
               (''finished'', PNone)]),
            (''root_password'', PStr ''hunter2'')]"
  let ?t = "[ServerTypesGetAll, ImagesGetAll, LocationsGetAll,
         ServerTypesGetByName ''cx11'', ImagesGetByName ''ubuntu-22.04'',
         LocationsGetByName (Some ''nbg1''), ServersCreate ''web'']"
  have run: "create_server sample_repr sample_client create_without_keys ((), [])
      = (Return ?d, ((), ?t))"
    by (rule create_without_keys_run)
  have ok: "is_success_envelope ?d" by simp
  have pw: "dict_get ?d ''root_password'' = Some (PStr ''hunter2'')" by simp
  from create_server_returns_root_password
    [of sample_repr sample_client create_without_keys "()" "[]" ?d "()" ?t] run ok
  have "\<exists>response st img loc keys s1 sd ad.
          servers_create (client_servers sample_client) (csp_name create_without_keys)
            st img loc keys s1 = (Inr response, ())
          \<and> server_to_dict (response_server response) = Inr sd
          \<and> action_to_dict (response_action response) = Inr ad
          \<and> ?d = PDict [(''server'', sd), (''action'', ad),
                        (''root_password'', response_root_password response)]"
    by blast
  with run ok pw show ?thesis by blast
qed

section \<open>Actions are returned as received\<close>









































lemmas run = exec return_dict_def py_dict_def




















end
